theory Spec2Isabelle
  imports Main "HOL-Library.Word"
begin

unbundle bit_operations_syntax

section \<open>JavaScript values used by the sources\<close>

text \<open>
  The sources are JavaScript. Numbers that the modelled code handles are integers (field
  values, text positions, period amounts) and are modelled as \<open>int\<close>. The bitwise operators
  of JavaScript first convert their operands to signed 32-bit integers (ToInt32) and yield a
  signed 32-bit integer; this is written out with \<open>32 word\<close>.
\<close>

definition js_bitor :: "int \<Rightarrow> int \<Rightarrow> int" where
  "js_bitor a b = sint ((word_of_int a :: 32 word) OR word_of_int b)"

definition js_bitnot :: "int \<Rightarrow> int" where
  "js_bitnot a = sint (NOT (word_of_int a :: 32 word))"

text \<open>
  Exceptions are values. Every class of the \<open>errors\<close> module that the modelled code throws
  or catches is a constructor; \<open>AssertionError\<close> stands for the error of a failed \<open>assert\<close> that
  names no class, and \<open>TypeError\<close> is the built-in error of calling a property that is
  not a function. The functions \<open>assert\<close> and \<open>requireNonNull\<close> are of the module \<open>assert\<close>,
  which is not among the sources; the message of the exception that they throw is modelled
  as the name that the caller passes.
\<close>

datatype exn =
    DateTimeParseException (message: string) string int "exn option"
  | DateTimeException (message: string)
  | ArithmeticException (message: string)
  | NullPointerException (message: string)
  | IllegalArgumentException (message: string)
  | IllegalStateException (message: string)
  | AssertionError (message: string)
  | TypeError (message: string)

definition isDateTimeParseException :: "exn \<Rightarrow> bool" where
  "isDateTimeParseException ex =
     (case ex of DateTimeParseException m t i c \<Rightarrow> True | _ \<Rightarrow> False)"

definition isArithmeticException :: "exn \<Rightarrow> bool" where
  "isArithmeticException ex = (case ex of ArithmeticException m \<Rightarrow> True | _ \<Rightarrow> False)"

text \<open>
  A reference that may be \<open>undefined\<close> or \<open>null\<close>. The test \<open>v != null\<close> of the sources is
  false for both.
\<close>

datatype 'a jsval = Undefined | Null | Obj 'a


text \<open>
  Conversion of an integer to its decimal text, as string concatenation
  (\<open>'' + n\<close>) does for a JavaScript number that is an integer of magnitude below \<open>10^21\<close>.
\<close>

definition digit_char :: "nat \<Rightarrow> char" where
  "digit_char d = ''0123456789'' ! d"

fun nat_to_string :: "nat \<Rightarrow> string" where
  "nat_to_string n = (if n < 10 then [digit_char n]
                      else nat_to_string (n div 10) @ [digit_char (n mod 10)])"

declare nat_to_string.simps [simp del]

definition int_to_string :: "int \<Rightarrow> string" where
  "int_to_string i = (if i < 0 then CHR ''-'' # nat_to_string (nat (- i))
                      else nat_to_string (nat i))"

section \<open>Period (src/Period.js)\<close>

text \<open>
  \<open>MathUtil\<close> is imported by \<open>Period.js\<close> but is not among the sources. Its four functions
  that \<open>Period\<close> calls are taken as parameters; each either throws or returns a number.
\<close>

record MathUtil =
  safeToInt :: "int \<Rightarrow> exn + int"
  safeAdd :: "int \<Rightarrow> int \<Rightarrow> exn + int"
  safeMultiply :: "int \<Rightarrow> int \<Rightarrow> exn + int"
  parseInt :: "string \<Rightarrow> exn + int"

text \<open>
  A \<open>Period\<close> object is either the one object \<open>Period.ZERO\<close>, which \<open>_init\<close> makes with
  all three fields \<open>0\<close>, or an instance made by the constructor. The test
  \<open>this === Period.ZERO\<close> is object identity, so the singleton is a constructor of its own:
  an instance whose fields are all \<open>0\<close> is a different object.
\<close>

datatype Period = ZERO | Instance int int int

fun years :: "Period \<Rightarrow> int" where
  "years ZERO = 0"
| "years (Instance y m d) = y"

fun months :: "Period \<Rightarrow> int" where
  "months ZERO = 0"
| "months (Instance y m d) = m"

fun days :: "Period \<Rightarrow> int" where
  "days ZERO = 0"
| "days (Instance y m d) = d"

text \<open>
  \<open>_validate\<close>. The three calls of \<open>requireNonNull\<close> pass, the amounts being numbers; a
  call of \<open>safeToInt\<close> matters only when it throws.
\<close>

definition Period_validate :: "MathUtil \<Rightarrow> int \<Rightarrow> int \<Rightarrow> int \<Rightarrow> exn + unit" where
  "Period_validate mu ys ms ds =
     (case safeToInt mu ys of Inl e \<Rightarrow> Inl e | Inr a \<Rightarrow>
      (case safeToInt mu ms of Inl e \<Rightarrow> Inl e | Inr b \<Rightarrow>
       (case safeToInt mu ds of Inl e \<Rightarrow> Inl e | Inr c \<Rightarrow> Inr ())))"

definition Period_constructor :: "MathUtil \<Rightarrow> int \<Rightarrow> int \<Rightarrow> int \<Rightarrow> exn + Period" where
  "Period_constructor mu ys ms ds =
     (if js_bitor (js_bitor ys ms) ds = 0 then Inr ZERO
      else (case Period_validate mu ys ms ds of
              Inl e \<Rightarrow> Inl e
            | Inr u \<Rightarrow> Inr (Instance ys ms ds)))"

definition Period_create :: "MathUtil \<Rightarrow> int \<Rightarrow> int \<Rightarrow> int \<Rightarrow> exn + Period" where
  "Period_create mu ys ms ds = Period_constructor mu ys ms ds"

definition Period_of :: "MathUtil \<Rightarrow> int \<Rightarrow> int \<Rightarrow> int \<Rightarrow> exn + Period" where
  "Period_of mu ys ms ds = Period_create mu ys ms ds"

definition Period_ofYears :: "MathUtil \<Rightarrow> int \<Rightarrow> exn + Period" where
  "Period_ofYears mu ys = Period_create mu ys 0 0"

definition Period_ofMonths :: "MathUtil \<Rightarrow> int \<Rightarrow> exn + Period" where
  "Period_ofMonths mu ms = Period_create mu 0 ms 0"

definition Period_ofWeeks :: "MathUtil \<Rightarrow> int \<Rightarrow> exn + Period" where
  "Period_ofWeeks mu ws =
     (case safeMultiply mu ws 7 of Inl e \<Rightarrow> Inl e | Inr ds \<Rightarrow> Period_create mu 0 0 ds)"

definition Period_ofDays :: "MathUtil \<Rightarrow> int \<Rightarrow> exn + Period" where
  "Period_ofDays mu ds = Period_create mu 0 0 ds"

definition isZero :: "Period \<Rightarrow> bool" where
  "isZero p = (p = ZERO)"

subsection \<open>Regular expressions\<close>

text \<open>
  \<open>Period.parse\<close> matches the text with the regular expression \<open>PATTERN\<close>. The constructs
  that \<open>PATTERN\<close> uses are modelled: a character, a character class, concatenation, the
  greedy optional \<open>r?\<close>, the greedy repetition \<open>[...]+\<close> of a class, and a capturing group.
  A group that is not capturing, \<open>(?:r)\<close>, is \<open>r\<close> itself.
\<close>

datatype regex =
    Chr char
  | OneOf string
  | Cat regex regex
  | Opt regex
  | PlusOneOf string
  | Group nat regex

text \<open>
  The captures of a match: \<open>None\<close> is \<open>undefined\<close>, the value of a group that took no part in
  the match.
\<close>

type_synonym captures = "nat \<Rightarrow> string option"

text \<open>
  The backtracking matcher of JavaScript, with a continuation for the rest of the
  expression: \<open>rmatch r k s cs\<close> matches \<open>r\<close> at the start of \<open>s\<close> and passes what is left of
  \<open>s\<close> and the captures to \<open>k\<close>; when \<open>k\<close> fails, the next alternative of \<open>r\<close> is tried, the
  longer match first. \<open>many C k\<close> is the greedy \<open>[C]*\<close>.
\<close>

fun many :: "string \<Rightarrow> (string \<Rightarrow> captures \<Rightarrow> 'r option) \<Rightarrow> string \<Rightarrow> captures \<Rightarrow> 'r option" where
  "many C k [] cs = k [] cs"
| "many C k (x # xs) cs =
     (if x \<in> set C
      then (case many C k xs cs of Some r \<Rightarrow> Some r | None \<Rightarrow> k (x # xs) cs)
      else k (x # xs) cs)"

primrec rmatch ::
  "regex \<Rightarrow> (string \<Rightarrow> captures \<Rightarrow> 'r option) \<Rightarrow> string \<Rightarrow> captures \<Rightarrow> 'r option" where
  "rmatch (Chr c) =
     (\<lambda>k s cs. case s of [] \<Rightarrow> None | x # xs \<Rightarrow> if x = c then k xs cs else None)"
| "rmatch (OneOf C) =
     (\<lambda>k s cs. case s of [] \<Rightarrow> None | x # xs \<Rightarrow> if x \<in> set C then k xs cs else None)"
| "rmatch (Cat a b) = (\<lambda>k s cs. rmatch a (rmatch b k) s cs)"
| "rmatch (Opt a) =
     (\<lambda>k s cs. case rmatch a k s cs of Some r \<Rightarrow> Some r | None \<Rightarrow> k s cs)"
| "rmatch (PlusOneOf C) =
     (\<lambda>k s cs. case s of [] \<Rightarrow> None | x # xs \<Rightarrow> if x \<in> set C then many C k xs cs else None)"
| "rmatch (Group n a) =
     (\<lambda>k s cs. rmatch a (\<lambda>s' cs'. k s' (cs'(n \<mapsto> take (length s - length s') s))) s cs)"

text \<open>
  \<open>RegExp.prototype.exec\<close> for an expression without flags: the first match from the
  leftmost start index, as its captures, or \<open>None\<close> (null) when no start index matches.
\<close>

fun regex_exec :: "regex \<Rightarrow> string \<Rightarrow> captures option" where
  "regex_exec r [] = rmatch r (\<lambda>s cs. Some cs) [] (\<lambda>n. None)"
| "regex_exec r (x # xs) =
     (case rmatch r (\<lambda>s cs. Some cs) (x # xs) (\<lambda>n. None) of
        Some cs \<Rightarrow> Some cs
      | None \<Rightarrow> regex_exec r xs)"

text \<open>
  \<open>PATTERN = /([-+]?)P(?:([-+]?[0-9]+)Y)?(?:([-+]?[0-9]+)M)?(?:([-+]?[0-9]+)W)?(?:([-+]?[0-9]+)D)?/\<close>
\<close>

definition numberCore :: "nat \<Rightarrow> char \<Rightarrow> regex" where
  "numberCore n suffix =
     Cat (Group n (Cat (Opt (OneOf ''-+'')) (PlusOneOf ''0123456789''))) (Chr suffix)"

definition numberSection :: "nat \<Rightarrow> char \<Rightarrow> regex" where
  "numberSection n suffix = Opt (numberCore n suffix)"

definition PATTERN :: regex where
  "PATTERN =
     Cat (Group 1 (Opt (OneOf ''-+'')))
       (Cat (Chr CHR ''P'')
         (Cat (numberSection 2 CHR ''Y'')
           (Cat (numberSection 3 CHR ''M'')
             (Cat (numberSection 4 CHR ''W'') (numberSection 5 CHR ''D'')))))"

subsection \<open>Parsing, printing and equality of periods\<close>

definition Period_parseNumber :: "MathUtil \<Rightarrow> string \<Rightarrow> string option \<Rightarrow> int \<Rightarrow> exn + int" where
  "Period_parseNumber mu text str negate =
     (case str of
        None \<Rightarrow> Inr 0
      | Some st \<Rightarrow>
          (case parseInt mu st of
             Inl e \<Rightarrow> Inl e
           | Inr val \<Rightarrow> safeMultiply mu val negate))"

text \<open>\<open>_parse\<close>.\<close>

definition Period_parse_inner :: "MathUtil \<Rightarrow> string \<Rightarrow> exn + Period" where
  "Period_parse_inner mu text =
     (case regex_exec PATTERN text of
        None \<Rightarrow> Inl (DateTimeParseException ''Text cannot be parsed to a Period'' text 0 None)
      | Some matches \<Rightarrow>
          (let negate = (if matches 1 = Some ''-'' then - 1 else 1);
               yearMatch = matches 2;
               monthMatch = matches 3;
               weekMatch = matches 4;
               dayMatch = matches 5
           in if yearMatch \<noteq> None \<or> monthMatch \<noteq> None \<or> weekMatch \<noteq> None \<or> dayMatch \<noteq> None
              then
                (case Period_parseNumber mu text yearMatch negate of Inl e \<Rightarrow> Inl e | Inr ys \<Rightarrow>
                 (case Period_parseNumber mu text monthMatch negate of Inl e \<Rightarrow> Inl e | Inr ms \<Rightarrow>
                  (case Period_parseNumber mu text weekMatch negate of Inl e \<Rightarrow> Inl e | Inr ws \<Rightarrow>
                   (case Period_parseNumber mu text dayMatch negate of Inl e \<Rightarrow> Inl e | Inr ds \<Rightarrow>
                    (case safeMultiply mu ws 7 of Inl e \<Rightarrow> Inl e | Inr wd \<Rightarrow>
                     (case safeAdd mu ds wd of Inl e \<Rightarrow> Inl e | Inr ds' \<Rightarrow>
                        Period_create mu ys ms ds'))))))
              else Inl (DateTimeParseException ''Text cannot be parsed to a Period'' text 0 None)))"

definition Period_parse :: "MathUtil \<Rightarrow> string option \<Rightarrow> exn + Period" where
  "Period_parse mu text =
     (case text of
        None \<Rightarrow> Inl (NullPointerException ''text'')
      | Some t \<Rightarrow>
          (case Period_parse_inner mu t of
             Inl ex \<Rightarrow>
               if isArithmeticException ex
               then Inl (DateTimeParseException ''Text cannot be parsed to a Period'' t 0 (Some ex))
               else Inl ex
           | Inr p \<Rightarrow> Inr p))"

text \<open>
  \<open>equals\<close>. The first test, \<open>this === obj\<close>, is object identity; two objects that are one
  object have equal fields, so the test is written as equality of the values.
\<close>

definition Period_equals :: "Period \<Rightarrow> Period jsval \<Rightarrow> bool" where
  "Period_equals this obj =
     (case obj of
        Obj other \<Rightarrow>
          if this = other then True
          else years this = years other \<and> months this = months other \<and> days this = days other
      | _ \<Rightarrow> False)"

text \<open>
  \<open>toString\<close>. \<open>periodSection v suffix\<close> is what one of the three statements
  \<open>if (v !== 0) { buf += '' + v + suffix; }\<close> appends to the buffer.
\<close>

definition periodSection :: "int \<Rightarrow> char \<Rightarrow> string" where
  "periodSection v suffix = (if v \<noteq> 0 then int_to_string v @ [suffix] else [])"

definition Period_toString :: "Period \<Rightarrow> string" where
  "Period_toString this =
     (if this = ZERO then ''P0D''
      else ''P'' @ periodSection (years this) CHR ''Y'' @ periodSection (months this) CHR ''M''
             @ periodSection (days this) CHR ''D'')"

text \<open>
  Two notions for the proofs about \<open>PATTERN\<close>: a continuation that never fails, and a text
  at which the section of the expression with suffix \<open>L\<close> cannot match: the empty text, or a
  number followed by a character that is neither a digit nor \<open>L\<close>.
\<close>

definition neverFails :: "(string \<Rightarrow> captures \<Rightarrow> 'r option) \<Rightarrow> bool" where
  "neverFails k = (\<forall>s cs. k s cs \<noteq> None)"

definition noSection :: "char \<Rightarrow> string \<Rightarrow> bool" where
  "noSection L s =
     (s = [] \<or> (\<exists>v c rest. s = int_to_string v @ c # rest \<and> c \<noteq> L \<and> c \<notin> set ''0123456789''))"

section \<open>Collaborators of DateTimeFormatter that are not among the sources\<close>

text \<open>
  The formatter (\<open>src/unnamed/part_000\<close>) imports \<open>ParsePosition\<close>, \<open>DateTimeParseContext\<close>,
  \<open>DateTimeBuilder\<close>, \<open>ResolverStyle\<close>, \<open>IsoChronology\<close> and the printer-parsers of
  \<open>DateTimeFormatterBuilder\<close>; none of them is among the sources. Objects of classes that the
  formatter only stores and passes on (locale, decimal style, chronology, zone, resolver
  fields) are values of a type parameter \<open>'x\<close>.
\<close>

text \<open>
  Modelled from the spec: the enumeration \<open>ResolverStyle\<close>
  (``\<open>ResolverStyle \<in> {STRICT, SMART, LENIENT}\<close>'').
\<close>

datatype ResolverStyle = STRICT | SMART | LENIENT

text \<open>
  Modelled from the spec: the class \<open>ParsePosition\<close> (``mutable cursor object with
  \<open>index\<close> and \<open>errorIndex\<close> (\<open>-1\<close> when unset)''). Mutation is state passing: a setter
  returns the updated object.
\<close>

record ParsePosition =
  index :: int
  errorIndex :: int

definition ParsePosition_new :: "int \<Rightarrow> ParsePosition" where
  "ParsePosition_new i = \<lparr>index = i, errorIndex = - 1\<rparr>"

definition getIndex :: "ParsePosition \<Rightarrow> int" where
  "getIndex p = index p"

definition setIndex :: "ParsePosition \<Rightarrow> int \<Rightarrow> ParsePosition" where
  "setIndex p i = p\<lparr>index := i\<rparr>"

definition getErrorIndex :: "ParsePosition \<Rightarrow> int" where
  "getErrorIndex p = errorIndex p"

definition setErrorIndex :: "ParsePosition \<Rightarrow> int \<Rightarrow> ParsePosition" where
  "setErrorIndex p i = p\<lparr>errorIndex := i\<rparr>"

text \<open>
  Modelled from the spec: the closed set of temporal fields (``names a closed set of
  temporal fields''); the names are those that the tests of
  \<open>DateTimeFormatterBuilderTest.js\<close> print.
\<close>

datatype field =
    Year | YearOfEra | MonthOfYear | DayOfMonth | DayOfYear | DayOfWeek
  | AlignedDayOfWeekInMonth | HourOfDay | HourOfAmPm | ClockHourOfDay | ClockHourOfAmPm
  | MinuteOfHour | SecondOfMinute | MilliOfDay | NanoOfSecond | NanoOfDay | QuarterOfYear

text \<open>
  Modelled from the spec: the binding set that a parse produces (``a mapping from field to
  signed integer value plus two side-channels: an optional zone identifier and an optional
  excess days amount'').
\<close>

record 'x Parsed =
  fieldValues :: "field \<rightharpoonup> int"
  parsed_zone :: "'x jsval"
  parsed_excessDays :: "Period jsval"

definition Parsed_new :: "'x Parsed" where
  "Parsed_new = \<lparr>fieldValues = Map.empty, parsed_zone = Null, parsed_excessDays = Null\<rparr>"

text \<open>
  Modelled from the spec: the class \<open>DateTimeParseContext\<close> (``carries cursor,
  case-sensitivity flag, strict flag, current chronology, and a stack of partial binding
  frames''). The cursor is the position that every node receives and returns. The head of
  \<open>frames\<close> is the current frame. A new context is case sensitive and strict (``strict mode
  (default)'') and has one empty frame.
\<close>

record 'x DateTimeParseContext =
  caseSensitive :: bool
  strict :: bool
  contextChronology :: "'x jsval"
  frames :: "'x Parsed list"

definition currentParsed :: "'x DateTimeParseContext \<Rightarrow> 'x Parsed" where
  "currentParsed ctx = (case frames ctx of [] \<Rightarrow> Parsed_new | p # ps \<Rightarrow> p)"

definition toParsed :: "'x DateTimeParseContext \<Rightarrow> 'x Parsed" where
  "toParsed ctx = currentParsed ctx"

text \<open>
  A printer-parser is an object with the methods that the formatter calls on its root:
  \<open>parse(context, text, pos)\<close>, which returns the new position or the bitwise complement of
  the error position and updates the context, or throws, and \<open>toString()\<close>.
\<close>

record 'x PrinterParser =
  pp_parse :: "'x DateTimeParseContext \<Rightarrow> string \<Rightarrow> int \<Rightarrow> exn + (int \<times> 'x DateTimeParseContext)"
  pp_toString :: string

section \<open>DateTimeFormatter (src/unnamed/part_000)\<close>

text \<open>
  The fields of the class. The constructor asserts that the printer-parser, the decimal
  style and the resolver style are not null, so these three fields hold objects.
\<close>

record 'x DateTimeFormatter =
  f_printerParser :: "'x PrinterParser"
  f_locale :: "'x jsval"
  f_decimalStyle :: "'x"
  f_resolverStyle :: ResolverStyle
  f_resolverFields :: "'x jsval"
  f_chrono :: "'x jsval"
  f_zone :: "'x jsval"

text \<open>
  The constructor. The parameter \<open>chrono\<close> has the default value \<open>IsoChronology.INSTANCE\<close>
  (here \<open>isoChronology\<close>), which JavaScript takes when the argument is \<open>undefined\<close>.
\<close>

definition DateTimeFormatter_constructor ::
  "'x \<Rightarrow> 'x PrinterParser jsval \<Rightarrow> 'x jsval \<Rightarrow> 'x jsval \<Rightarrow> ResolverStyle jsval \<Rightarrow> 'x jsval
     \<Rightarrow> 'x jsval \<Rightarrow> 'x jsval \<Rightarrow> exn + 'x DateTimeFormatter" where
  "DateTimeFormatter_constructor isoChronology printerParser loc decimalStyle resolverStyle
       resolverFields chrono zone =
     (case printerParser of
        Obj pp \<Rightarrow>
          (case decimalStyle of
             Obj ds \<Rightarrow>
               (case resolverStyle of
                  Obj rs \<Rightarrow>
                    Inr \<lparr>f_printerParser = pp, f_locale = loc, f_decimalStyle = ds,
                         f_resolverStyle = rs, f_resolverFields = resolverFields,
                         f_chrono = (if chrono = Undefined then Obj isoChronology else chrono),
                         f_zone = zone\<rparr>
                | _ \<Rightarrow> Inl (AssertionError []))
           | _ \<Rightarrow> Inl (AssertionError []))
      | _ \<Rightarrow> Inl (AssertionError []))"

definition chronology :: "'x DateTimeFormatter \<Rightarrow> 'x jsval" where
  "chronology f = f_chrono f"

text \<open>
  Formatter objects live in a store, a list whose indices are the references, so that
  ``returns \<open>this\<close>'' and ``returns a new object'' differ. \<open>withChronology\<close> is called on the
  object at reference \<open>this\<close>; \<open>new\<close> allocates the next index. The method \<open>equals\<close> of the
  chronology is a parameter.
\<close>

type_synonym 'x store = "'x DateTimeFormatter list"

definition withChronology ::
  "('x \<Rightarrow> 'x jsval \<Rightarrow> bool) \<Rightarrow> 'x \<Rightarrow> 'x store \<Rightarrow> nat \<Rightarrow> 'x jsval \<Rightarrow> exn + (nat \<times> 'x store)" where
  "withChronology equals isoChronology st this chrono =
     (let f = st ! this in
      if (case f_chrono f of Obj c \<Rightarrow> equals c chrono | _ \<Rightarrow> False) then Inr (this, st)
      else (case DateTimeFormatter_constructor isoChronology (Obj (f_printerParser f)) (f_locale f)
                   (Obj (f_decimalStyle f)) (Obj (f_resolverStyle f)) (f_resolverFields f)
                   chrono (f_zone f) of
              Inl e \<Rightarrow> Inl e
            | Inr g \<Rightarrow> Inr (length st, st @ [g])))"

text \<open>
  Modelled from the spec: the constructor \<open>DateTimeParseContext(formatter)\<close>, see the record
  above; the current chronology is the override chronology of the formatter.
\<close>

definition DateTimeParseContext_new :: "'x DateTimeFormatter \<Rightarrow> 'x DateTimeParseContext" where
  "DateTimeParseContext_new f =
     \<lparr>caseSensitive = True, strict = True, contextChronology = f_chrono f,
      frames = [Parsed_new]\<rparr>"

text \<open>
  \<open>_parseUnresolved0\<close>. The text and the position may be null (\<open>None\<close>). The result is the
  thrown exception, or the returned value (\<open>None\<close> is null) with the position as the call
  leaves it. Nothing is written to the position before a throw, so a throw needs no position.
\<close>

definition parseUnresolved0 ::
  "'x DateTimeFormatter \<Rightarrow> string option \<Rightarrow> ParsePosition option
     \<Rightarrow> exn + ('x Parsed option \<times> ParsePosition)" where
  "parseUnresolved0 f text position =
     (case text of
        None \<Rightarrow> Inl (NullPointerException ''text'')
      | Some t \<Rightarrow>
          (case position of
             None \<Rightarrow> Inl (NullPointerException ''position'')
           | Some p \<Rightarrow>
               (let context = DateTimeParseContext_new f;
                    pos = getIndex p
                in (case pp_parse (f_printerParser f) context t pos of
                      Inl e \<Rightarrow> Inl e
                    | Inr (pos', context') \<Rightarrow>
                        if pos' < 0 then Inr (None, setErrorIndex p (js_bitnot pos'))
                        else Inr (Some (toParsed context'), setIndex p pos')))))"

definition parseUnresolved ::
  "'x DateTimeFormatter \<Rightarrow> string option \<Rightarrow> ParsePosition option
     \<Rightarrow> exn + ('x Parsed option \<times> ParsePosition)" where
  "parseUnresolved f text position = parseUnresolved0 f text position"

text \<open>
  The abbreviation of the text in \<open>_parseToBuilder\<close>: \<open>text.substr(0, 64) + '...'\<close>.
\<close>

definition quote :: char where
  "quote = CHR 0x27"

definition abbreviate :: "string \<Rightarrow> string" where
  "abbreviate text = (if length text > 64 then take 64 text @ ''...'' else text)"

text \<open>
  \<open>_parseToBuilder\<close>, for a text that is not null (both callers check it first). The
  method \<open>toBuilder\<close> of the parsed result is a parameter. Both callers pass no position, so
  the position object of the call is not visible afterwards and is not returned.
\<close>

definition parseToBuilder ::
  "('x Parsed \<Rightarrow> 'b) \<Rightarrow> 'x DateTimeFormatter \<Rightarrow> string \<Rightarrow> ParsePosition option \<Rightarrow> exn + 'b" where
  "parseToBuilder toBuilder f text position =
     (let pos0 = (case position of Some p \<Rightarrow> p | None \<Rightarrow> ParsePosition_new 0)
      in (case parseUnresolved0 f (Some text) (Some pos0) of
            Inl e \<Rightarrow> Inl e
          | Inr (result, pos) \<Rightarrow>
              if result = None \<or> getErrorIndex pos \<ge> 0
                 \<or> (position = None \<and> getIndex pos < int (length text))
              then (let abbr = abbreviate text
                    in if getErrorIndex pos \<ge> 0
                       then Inl (DateTimeParseException
                              (''Text '' @ [quote] @ abbr @ [quote] @ '' could not be parsed at index ''
                                 @ int_to_string (getErrorIndex pos))
                              text (getErrorIndex pos) None)
                       else Inl (DateTimeParseException
                              (''Text '' @ [quote] @ abbr @ [quote]
                                 @ '' could not be parsed, unparsed text found at index ''
                                 @ int_to_string (getIndex pos))
                              text (getIndex pos) None))
              else (case result of
                      Some r \<Rightarrow> Inr (toBuilder r)
                    | None \<Rightarrow> Inl (TypeError []))))"

text \<open>
  \<open>_createError\<close>. Strings have no method \<open>subString\<close>, so for a text of more than 64
  characters the call \<open>text.subString(0, 64)\<close> throws a \<open>TypeError\<close>; the function then
  throws (\<open>Inl\<close>) instead of returning the exception to throw (\<open>Inr\<close>).
\<close>

definition createError :: "string \<Rightarrow> exn \<Rightarrow> exn + exn" where
  "createError text ex =
     (if length text > 64 then Inl (TypeError ''text.subString is not a function'')
      else Inr (DateTimeParseException
                  (''Text '' @ [quote] @ text @ [quote] @ '' could not be parsed: '' @ message ex)
                  text 0 (Some ex)))"

text \<open>
  \<open>parse1\<close> and \<open>parse2\<close>. The methods \<open>resolve\<close> and \<open>build\<close> of \<open>DateTimeBuilder\<close> are
  parameters; each returns or throws. \<open>wrapError\<close> is the exception that the \<open>catch\<close> block
  of both throws for a caught exception \<open>ex\<close>: \<open>ex\<close> itself when it is a
  \<open>DateTimeParseException\<close>, else what \<open>_createError\<close> returns or throws.
\<close>

definition wrapError :: "string \<Rightarrow> exn \<Rightarrow> exn" where
  "wrapError text ex =
     (if isDateTimeParseException ex then ex
      else (case createError text ex of Inl thrown \<Rightarrow> thrown | Inr made \<Rightarrow> made))"

definition parse1 ::
  "('x Parsed \<Rightarrow> 'b) \<Rightarrow> ('b \<Rightarrow> ResolverStyle \<Rightarrow> 'x jsval \<Rightarrow> exn + 'b) \<Rightarrow> 'x DateTimeFormatter
     \<Rightarrow> string option \<Rightarrow> exn + 'b" where
  "parse1 toBuilder resolve f text =
     (case text of
        None \<Rightarrow> Inl (NullPointerException ''text'')
      | Some t \<Rightarrow>
          (case (case parseToBuilder toBuilder f t None of
                   Inl e \<Rightarrow> Inl e
                 | Inr b \<Rightarrow> resolve b (f_resolverStyle f) (f_resolverFields f)) of
             Inl ex \<Rightarrow> Inl (wrapError t ex)
           | Inr r \<Rightarrow> Inr r))"

definition parse2 ::
  "('x Parsed \<Rightarrow> 'b) \<Rightarrow> ('b \<Rightarrow> ResolverStyle \<Rightarrow> 'x jsval \<Rightarrow> exn + 'b) \<Rightarrow> ('b \<Rightarrow> 'q \<Rightarrow> exn + 'v)
     \<Rightarrow> 'x DateTimeFormatter \<Rightarrow> string option \<Rightarrow> 'q option \<Rightarrow> exn + 'v" where
  "parse2 toBuilder resolve build f text type =
     (case text of
        None \<Rightarrow> Inl (NullPointerException ''text'')
      | Some t \<Rightarrow>
          (case type of
             None \<Rightarrow> Inl (NullPointerException ''type'')
           | Some ty \<Rightarrow>
               (case (case parseToBuilder toBuilder f t None of
                        Inl e \<Rightarrow> Inl e
                      | Inr b \<Rightarrow>
                          (case resolve b (f_resolverStyle f) (f_resolverFields f) of
                             Inl e \<Rightarrow> Inl e
                           | Inr builder \<Rightarrow> build builder ty)) of
                  Inl ex \<Rightarrow> Inl (wrapError t ex)
                | Inr r \<Rightarrow> Inr r)))"

text \<open>
  \<open>toString\<close>. \<open>js_substring\<close> is \<open>String.prototype.substring\<close>: both arguments are clamped
  to the range from \<open>0\<close> to the length, and swapped when the first exceeds the second.
  \<open>pattern.indexOf('[') === 0\<close> holds when the pattern starts with an opening square bracket.
\<close>

definition js_substring :: "string \<Rightarrow> int \<Rightarrow> int \<Rightarrow> string" where
  "js_substring s a b =
     (let n = int (length s);
          a' = min (max a 0) n;
          b' = min (max b 0) n;
          lo = min a' b';
          hi = max a' b'
      in take (nat (hi - lo)) (drop (nat lo) s))"

definition startsWithBracket :: "string \<Rightarrow> bool" where
  "startsWithBracket s = (case s of [] \<Rightarrow> False | c # cs \<Rightarrow> c = CHR ''['')"

definition toString :: "'x DateTimeFormatter \<Rightarrow> string" where
  "toString f =
     (let pattern = pp_toString (f_printerParser f)
      in if startsWithBracket pattern then pattern
         else js_substring pattern 1 (int (length pattern) - 1))"






section \<open>Printer-parser nodes, modelled from the spec\<close>

text \<open>
  The printer-parsers (the nodes of a formatter's tree), the builder and the pattern compiler
  are code of \<open>DateTimeFormatterBuilder\<close>, which is not among the sources; only its tests
  (\<open>DateTimeFormatterBuilderTest.js\<close>) are. This section models the nodes that the theorems
  below need: literals, numeric values, reduced values, the two context modifiers and
  composites. Fraction, pad, offset, zone and instant nodes are not modelled.
\<close>

text \<open>Modelled from the spec: the sign styles of a \<open>Value\<close> node.\<close>

datatype SignStyle = NORMAL | ALWAYS | NEVER | NOT_NEGATIVE | EXCEEDS_PAD

text \<open>
  Modelled from the spec: the printer-parser nodes (section 3 of the spec).
  \<open>Value field minWidth maxWidth signStyle subsequentWidth\<close> carries the total width \<open>F\<close> of
  the fixed-width nodes that follow it in its adjacent-value group (``the running total of
  fixed-width digits that follow it''), \<open>0\<close> when it heads no group.
  \<open>ReducedValue field width maxWidth baseValue\<close>.
  \<open>Composite nodes optional\<close> is the sequence of the spec when \<open>optional\<close> is false and its
  optional group when \<open>optional\<close> is true.
\<close>

datatype node =
    Literal string
  | Value field nat nat SignStyle nat
  | ReducedValue field nat nat int
  | CaseSensitivity bool
  | Strict bool
  | Composite "node list" bool

subsection \<open>Parsing\<close>

text \<open>
  Modelled from the spec: the failure value of a node at error position \<open>p\<close>, ``the
  bitwise complement of the error index''. For a position of a text (from \<open>0\<close>, below \<open>2^31\<close>)
  the bitwise complement is \<open>-p - 1\<close>.
\<close>

definition complement :: "int \<Rightarrow> int" where
  "complement p = - p - 1"

definition isDigit :: "char \<Rightarrow> bool" where
  "isDigit c = (c \<in> set ''0123456789'')"

definition digitValue :: "char \<Rightarrow> nat" where
  "digitValue c = length (takeWhile (\<lambda>d. d \<noteq> c) ''0123456789'')"

definition numberValue :: "string \<Rightarrow> nat" where
  "numberValue ds = foldl (\<lambda>a c. 10 * a + digitValue c) 0 ds"

definition upperCase :: "char \<Rightarrow> char" where
  "upperCase c =
     (case map_of (zip ''abcdefghijklmnopqrstuvwxyz'' ''ABCDEFGHIJKLMNOPQRSTUVWXYZ'') c of
        Some u \<Rightarrow> u
      | None \<Rightarrow> c)"

definition charsEqual :: "bool \<Rightarrow> string \<Rightarrow> string \<Rightarrow> bool" where
  "charsEqual sensitive a b = (if sensitive then a = b else map upperCase a = map upperCase b)"

text \<open>
  Modelled from the spec: binding a field (``if a field is already bound and the new value
  differs, error at the current position; if identical, accepted'').
\<close>

definition setParsedField ::
  "field \<Rightarrow> int \<Rightarrow> int \<Rightarrow> int \<Rightarrow> 'x DateTimeParseContext \<Rightarrow> int \<times> 'x DateTimeParseContext" where
  "setParsedField f v errorPos successPos ctx =
     (case fieldValues (currentParsed ctx) f of
        Some old \<Rightarrow> if old = v then (successPos, ctx) else (complement errorPos, ctx)
      | None \<Rightarrow>
          (successPos,
           ctx\<lparr>frames := (currentParsed ctx)\<lparr>fieldValues := (fieldValues (currentParsed ctx))(f \<mapsto> v)\<rparr>
                            # tl (frames ctx)\<rparr>))"

text \<open>
  Modelled from the spec: a literal matches its characters at the position, honouring the
  case-sensitivity flag.
\<close>

definition parseLiteral ::
  "string \<Rightarrow> 'x DateTimeParseContext \<Rightarrow> string \<Rightarrow> int \<Rightarrow> int \<times> 'x DateTimeParseContext" where
  "parseLiteral lit ctx text p =
     (if 0 \<le> p \<and> p + int (length lit) \<le> int (length text)
         \<and> charsEqual (caseSensitive ctx) (take (length lit) (drop (nat p) text)) lit
      then (p + int (length lit), ctx)
      else (complement p, ctx))"

text \<open>
  Modelled from the spec: the parse of a \<open>Value\<close> node (section 4.4, adjacent-value parsing,
  where a node that heads no group has \<open>F = 0\<close>): scan over up to \<open>maxWidth + F\<close> digits; with
  \<open>L\<close> digits found, fail at \<open>p\<close> if \<open>L < minWidth + F\<close>, else consume \<open>L - F\<close> digits. The spec
  gives the sign styles for printing only; here a sign character before the digits is
  accepted when the style can print it, and fails the node otherwise. The strict flag
  changes nothing here: the spec lets lenient mode take ``any count in the declared
  range'', which is what the scan does.
\<close>

definition signAccepted :: "SignStyle \<Rightarrow> char \<Rightarrow> bool" where
  "signAccepted style c =
     (case style of
        NORMAL \<Rightarrow> c = CHR ''-''
      | ALWAYS \<Rightarrow> True
      | EXCEEDS_PAD \<Rightarrow> True
      | NEVER \<Rightarrow> False
      | NOT_NEGATIVE \<Rightarrow> False)"

definition parseValue ::
  "field \<Rightarrow> nat \<Rightarrow> nat \<Rightarrow> SignStyle \<Rightarrow> nat \<Rightarrow> 'x DateTimeParseContext \<Rightarrow> string \<Rightarrow> int
     \<Rightarrow> int \<times> 'x DateTimeParseContext" where
  "parseValue f minWidth maxWidth style F ctx text p =
     (if p < 0 \<or> int (length text) \<le> p then (complement p, ctx)
      else
        (let c = text ! nat p;
             signed = (c = CHR ''+'' \<or> c = CHR ''-'');
             start = (if signed then nat p + 1 else nat p);
             run = takeWhile isDigit (take (maxWidth + F) (drop start text));
             L = length run
         in if signed \<and> \<not> signAccepted style c then (complement p, ctx)
            else if L < minWidth + F then (complement p, ctx)
            else
              (let magnitude = int (numberValue (take (L - F) run));
                   v = (if c = CHR ''-'' then - magnitude else magnitude)
               in setParsedField f v p (int start + int (L - F)) ctx)))"

text \<open>
  Modelled from the spec: the parse of a \<open>ReducedValue\<close> node (``consumes exactly \<open>width\<close>
  digits. Let \<open>d\<close> be the parsed unsigned integer. Compute the base cycle
  \<open>C = base - (base mod 10^width)\<close> and set the candidate \<open>v = C + d\<close>. If \<open>v < base\<close>, add
  \<open>10^width\<close>'').
\<close>

definition parseReduced ::
  "field \<Rightarrow> nat \<Rightarrow> int \<Rightarrow> 'x DateTimeParseContext \<Rightarrow> string \<Rightarrow> int
     \<Rightarrow> int \<times> 'x DateTimeParseContext" where
  "parseReduced f width baseValue ctx text p =
     (if p < 0 then (complement p, ctx)
      else
        (let run = takeWhile isDigit (take width (drop (nat p) text))
         in if length run < width then (complement p, ctx)
            else
              (let d = int (numberValue run);
                   C = baseValue - (baseValue mod 10 ^ width);
                   v = C + d;
                   v' = (if v < baseValue then v + 10 ^ width else v)
               in setParsedField f v' p (p + int width) ctx)))"

text \<open>
  Modelled from the spec: the tree walk. A sequence stops at the first failing node. An
  optional group whose sequence fails restores the binding frames that the context had on
  entry and succeeds at the entry position.
\<close>

fun node_parse ::
      "node \<Rightarrow> 'x DateTimeParseContext \<Rightarrow> string \<Rightarrow> int \<Rightarrow> int \<times> 'x DateTimeParseContext"
  and nodes_parse ::
      "node list \<Rightarrow> 'x DateTimeParseContext \<Rightarrow> string \<Rightarrow> int \<Rightarrow> int \<times> 'x DateTimeParseContext"
  where
  "node_parse (Literal lit) ctx text p = parseLiteral lit ctx text p"
| "node_parse (Value f minWidth maxWidth style F) ctx text p =
     parseValue f minWidth maxWidth style F ctx text p"
| "node_parse (ReducedValue f width maxWidth baseValue) ctx text p =
     parseReduced f width baseValue ctx text p"
| "node_parse (CaseSensitivity b) ctx text p = (p, ctx\<lparr>caseSensitive := b\<rparr>)"
| "node_parse (Strict b) ctx text p = (p, ctx\<lparr>strict := b\<rparr>)"
| "node_parse (Composite ns optional) ctx text p =
     (case nodes_parse ns ctx text p of
        (p', ctx') \<Rightarrow>
          if optional \<and> p' < 0 then (p, ctx'\<lparr>frames := frames ctx\<rparr>) else (p', ctx'))"
| "nodes_parse [] ctx text p = (p, ctx)"
| "nodes_parse (n # ns) ctx text p =
     (case node_parse n ctx text p of
        (p', ctx') \<Rightarrow> if p' < 0 then (p', ctx') else nodes_parse ns ctx' text p')"

subsection \<open>Pretty-printing\<close>

text \<open>
  Modelled from the spec: the printed form of a node (section 4.6). The names of fields and
  sign styles and the three forms of a \<open>Value\<close> are those that the tests expect:
  \<open>Value(DayOfMonth)\<close> for widths 1 to 15 with \<open>NORMAL\<close>, \<open>Value(DayOfMonth,3)\<close> for a fixed
  width with \<open>NOT_NEGATIVE\<close>, \<open>Value(DayOfMonth,2,3,NORMAL)\<close> otherwise; the literal that is
  one apostrophe prints as two apostrophes. The brackets of a composite are round, those of
  an optional group square.
\<close>

definition fieldName :: "field \<Rightarrow> string" where
  "fieldName f =
     (case f of
        Year \<Rightarrow> ''Year'' | YearOfEra \<Rightarrow> ''YearOfEra'' | MonthOfYear \<Rightarrow> ''MonthOfYear''
      | DayOfMonth \<Rightarrow> ''DayOfMonth'' | DayOfYear \<Rightarrow> ''DayOfYear'' | DayOfWeek \<Rightarrow> ''DayOfWeek''
      | AlignedDayOfWeekInMonth \<Rightarrow> ''AlignedDayOfWeekInMonth'' | HourOfDay \<Rightarrow> ''HourOfDay''
      | HourOfAmPm \<Rightarrow> ''HourOfAmPm'' | ClockHourOfDay \<Rightarrow> ''ClockHourOfDay''
      | ClockHourOfAmPm \<Rightarrow> ''ClockHourOfAmPm'' | MinuteOfHour \<Rightarrow> ''MinuteOfHour''
      | SecondOfMinute \<Rightarrow> ''SecondOfMinute'' | MilliOfDay \<Rightarrow> ''MilliOfDay''
      | NanoOfSecond \<Rightarrow> ''NanoOfSecond'' | NanoOfDay \<Rightarrow> ''NanoOfDay''
      | QuarterOfYear \<Rightarrow> ''QuarterOfYear'')"

definition signStyleName :: "SignStyle \<Rightarrow> string" where
  "signStyleName style =
     (case style of
        NORMAL \<Rightarrow> ''NORMAL'' | ALWAYS \<Rightarrow> ''ALWAYS'' | NEVER \<Rightarrow> ''NEVER''
      | NOT_NEGATIVE \<Rightarrow> ''NOT_NEGATIVE'' | EXCEEDS_PAD \<Rightarrow> ''EXCEEDS_PAD'')"

definition boolName :: "bool \<Rightarrow> string" where
  "boolName b = (if b then ''true'' else ''false'')"

definition doubleQuotes :: "string \<Rightarrow> string" where
  "doubleQuotes s = concat (map (\<lambda>c. if c = quote then [quote, quote] else [c]) s)"

fun node_toString :: "node \<Rightarrow> string" where
  "node_toString (Literal lit) =
     (if lit = [quote] then [quote, quote] else [quote] @ doubleQuotes lit @ [quote])"
| "node_toString (Value f minWidth maxWidth style F) =
     (if minWidth = 1 \<and> maxWidth = 15 \<and> style = NORMAL then ''Value('' @ fieldName f @ '')''
      else if minWidth = maxWidth \<and> style = NOT_NEGATIVE
      then ''Value('' @ fieldName f @ '','' @ nat_to_string minWidth @ '')''
      else ''Value('' @ fieldName f @ '','' @ nat_to_string minWidth @ '',''
             @ nat_to_string maxWidth @ '','' @ signStyleName style @ '')'')"
| "node_toString (ReducedValue f width maxWidth baseValue) =
     ''ReducedValue('' @ fieldName f @ '','' @ nat_to_string width @ '',''
        @ nat_to_string maxWidth @ '','' @ int_to_string baseValue @ '')''"
| "node_toString (CaseSensitivity b) = ''ParseCaseSensitive('' @ boolName b @ '')''"
| "node_toString (Strict b) = ''ParseStrict('' @ boolName b @ '')''"
| "node_toString (Composite ns optional) =
     (if optional then ''['' else ''('') @ concat (map node_toString ns)
       @ (if optional then '']'' else '')'')"

text \<open>A node as the printer-parser object that a formatter holds.\<close>

definition node_pp :: "node \<Rightarrow> 'x PrinterParser" where
  "node_pp n =
     \<lparr>pp_parse = (\<lambda>ctx text p. Inr (node_parse n ctx text p)), pp_toString = node_toString n\<rparr>"

section \<open>The builder and the pattern compiler, modelled from the spec\<close>

text \<open>
  Modelled from the spec: the builder (section 4.1), a stack of frames. The head is the
  active sequence, every frame above the last was opened by \<open>optionalStart\<close>.
  \<open>valueParserIndex\<close> is the ``pointer to the active variable-width node'' of the active
  sequence.
\<close>

record builderFrame =
  printerParsers :: "node list"
  frameOptional :: bool
  valueParserIndex :: "nat option"

type_synonym builder = "builderFrame list"

definition newFrame :: "bool \<Rightarrow> builderFrame" where
  "newFrame optional = \<lparr>printerParsers = [], frameOptional = optional, valueParserIndex = None\<rparr>"

definition DateTimeFormatterBuilder_new :: builder where
  "DateTimeFormatterBuilder_new = [newFrame False]"

definition frameAppend :: "node \<Rightarrow> builderFrame \<Rightarrow> builderFrame" where
  "frameAppend n fr = fr\<lparr>printerParsers := printerParsers fr @ [n], valueParserIndex := None\<rparr>"

definition appendInternal :: "node \<Rightarrow> builder \<Rightarrow> builder" where
  "appendInternal n b = (case b of [] \<Rightarrow> [] | fr # rest \<Rightarrow> frameAppend n fr # rest)"

text \<open>
  Modelled from the spec: subsequent-width patching. A node of fixed width \<open>w\<close> that is
  appended while a \<open>Value\<close> node is active adds \<open>w\<close> to the running total of the active node,
  which stays active; any other \<open>Value\<close> node becomes the active node. A reduced value counts
  as a node of fixed width (the test \<open>test_appendValueReduced_subsequent_parse\<close>). Appending
  any other node, or opening an optional group, clears the pointer.
\<close>

definition frameActiveValue :: "builderFrame \<Rightarrow> (nat \<times> node) option" where
  "frameActiveValue fr =
     (case valueParserIndex fr of
        None \<Rightarrow> None
      | Some i \<Rightarrow>
          if i < length (printerParsers fr)
          then (case printerParsers fr ! i of
                  Value f minWidth maxWidth style F \<Rightarrow> Some (i, Value f minWidth maxWidth style F)
                | _ \<Rightarrow> None)
          else None)"

definition addSubsequentWidth :: "nat \<Rightarrow> node \<Rightarrow> node" where
  "addSubsequentWidth w n =
     (case n of
        Value f minWidth maxWidth style F \<Rightarrow> Value f minWidth maxWidth style (F + w)
      | _ \<Rightarrow> n)"

definition frameAppendFixed :: "nat \<Rightarrow> node \<Rightarrow> builderFrame \<Rightarrow> builderFrame" where
  "frameAppendFixed w n fr =
     (case frameActiveValue fr of
        Some (i, active) \<Rightarrow>
          fr\<lparr>printerParsers := (printerParsers fr)[i := addSubsequentWidth w active] @ [n]\<rparr>
      | None \<Rightarrow> frameAppend n fr)"

definition frameAppendValue :: "node \<Rightarrow> builderFrame \<Rightarrow> builderFrame" where
  "frameAppendValue n fr =
     (case n of
        Value f minWidth maxWidth style F \<Rightarrow>
          (if minWidth = maxWidth \<and> frameActiveValue fr \<noteq> None
           then frameAppendFixed maxWidth n fr
           else fr\<lparr>printerParsers := printerParsers fr @ [n],
                   valueParserIndex := Some (length (printerParsers fr))\<rparr>)
      | ReducedValue f width maxWidth baseValue \<Rightarrow> frameAppendFixed width n fr
      | _ \<Rightarrow> frameAppend n fr)"

definition appendValueNode :: "node \<Rightarrow> builder \<Rightarrow> builder" where
  "appendValueNode n b = (case b of [] \<Rightarrow> [] | fr # rest \<Rightarrow> frameAppendValue n fr # rest)"

text \<open>
  Modelled from the spec: the operations of the builder. Widths are the numbers that the
  caller passes; a width outside its range is an \<open>IllegalArgumentException\<close>.
  \<open>appendValue(field)\<close> is \<open>appendValue1\<close>, \<open>appendValue(field, width)\<close> is \<open>appendValue2\<close>,
  \<open>appendValue(field, min, max, signStyle)\<close> is \<open>appendValue4\<close>.
\<close>

definition appendValue1 :: "field \<Rightarrow> builder \<Rightarrow> exn + builder" where
  "appendValue1 f b = Inr (appendValueNode (Value f 1 15 NORMAL 0) b)"

definition appendValue2 :: "field \<Rightarrow> int \<Rightarrow> builder \<Rightarrow> exn + builder" where
  "appendValue2 f width b =
     (if width < 1 \<or> width > 15
      then Inl (IllegalArgumentException ''The width must be from 1 to 15 inclusive'')
      else Inr (appendValueNode (Value f (nat width) (nat width) NOT_NEGATIVE 0) b))"

definition appendValue4 :: "field \<Rightarrow> int \<Rightarrow> int \<Rightarrow> SignStyle \<Rightarrow> builder \<Rightarrow> exn + builder" where
  "appendValue4 f minWidth maxWidth style b =
     (if minWidth < 1 \<or> minWidth > 15
      then Inl (IllegalArgumentException ''The minimum width must be from 1 to 15 inclusive'')
      else if maxWidth < 1 \<or> maxWidth > 15
      then Inl (IllegalArgumentException ''The maximum width must be from 1 to 15 inclusive'')
      else if maxWidth < minWidth
      then Inl (IllegalArgumentException ''The maximum width must exceed or equal the minimum width'')
      else Inr (appendValueNode (Value f (nat minWidth) (nat maxWidth) style 0) b))"

definition appendValueReduced :: "field \<Rightarrow> int \<Rightarrow> int \<Rightarrow> int \<Rightarrow> builder \<Rightarrow> exn + builder" where
  "appendValueReduced f width maxWidth baseValue b =
     (if width < 1 \<or> width > 10
      then Inl (IllegalArgumentException ''The width must be from 1 to 10 inclusive'')
      else if maxWidth < 1 \<or> maxWidth > 10
      then Inl (IllegalArgumentException ''The maxWidth must be from 1 to 10 inclusive'')
      else if maxWidth < width
      then Inl (IllegalArgumentException ''The maxWidth must be greater than the width'')
      else Inr (appendValueNode (ReducedValue f (nat width) (nat maxWidth) baseValue) b))"

definition appendLiteral :: "string \<Rightarrow> builder \<Rightarrow> builder" where
  "appendLiteral lit b = (if lit = [] then b else appendInternal (Literal lit) b)"

definition parseCaseSensitive :: "builder \<Rightarrow> builder" where
  "parseCaseSensitive b = appendInternal (CaseSensitivity True) b"

definition parseCaseInsensitive :: "builder \<Rightarrow> builder" where
  "parseCaseInsensitive b = appendInternal (CaseSensitivity False) b"

definition parseStrict :: "builder \<Rightarrow> builder" where
  "parseStrict b = appendInternal (Strict True) b"

definition parseLenient :: "builder \<Rightarrow> builder" where
  "parseLenient b = appendInternal (Strict False) b"

definition optionalStart :: "builder \<Rightarrow> builder" where
  "optionalStart b =
     (case b of
        [] \<Rightarrow> []
      | fr # rest \<Rightarrow> newFrame True # fr\<lparr>valueParserIndex := None\<rparr> # rest)"

text \<open>
  Closing a frame appends its sequence to the parent as one composite; an empty sequence
  leaves the parent as it is (the test \<open>test_optionalStartEnd_immediateStartEnd\<close>).
\<close>

definition closeFrame :: "builderFrame \<Rightarrow> builderFrame \<Rightarrow> builderFrame" where
  "closeFrame fr parent =
     (if printerParsers fr = [] then parent
      else frameAppend (Composite (printerParsers fr) (frameOptional fr)) parent)"

definition optionalEnd :: "builder \<Rightarrow> exn + builder" where
  "optionalEnd b =
     (case b of
        fr # parent # rest \<Rightarrow> Inr (closeFrame fr parent # rest)
      | _ \<Rightarrow> Inl (IllegalStateException
                   ''Cannot call optionalEnd() as there was no previous call to optionalStart()''))"

text \<open>
  Modelled from the spec: \<open>toFormatter\<close> (``an unmatched \<open>optionalStart\<close> at this point: the
  tree is closed implicitly by a terminal \<open>optionalEnd\<close>''; ``returns the composite''). The
  root is a composite that is not optional. The formatter has no locale, override chronology,
  zone or resolver fields; decimal style and resolver style are arguments.
\<close>

fun rootNode :: "builder \<Rightarrow> node" where
  "rootNode [] = Composite [] False"
| "rootNode [fr] = Composite (printerParsers fr) False"
| "rootNode (fr # parent # rest) = rootNode (closeFrame fr parent # rest)"

definition toFormatter :: "'x \<Rightarrow> ResolverStyle \<Rightarrow> builder \<Rightarrow> 'x DateTimeFormatter" where
  "toFormatter decimalStyle resolverStyle b =
     \<lparr>f_printerParser = node_pp (rootNode b), f_locale = Null, f_decimalStyle = decimalStyle,
      f_resolverStyle = resolverStyle, f_resolverFields = Null, f_chrono = Null,
      f_zone = Null\<rparr>"

text \<open>
  Modelled from the spec: the pattern compiler (section 4.2), for the letters whose nodes
  are modelled here, quoted literals, brackets and other characters. The counts are those of
  the spec's table and of the data of \<open>test_appendPattern_valid\<close> and
  \<open>test_appendPattern_invalid\<close>. The letters of the table whose nodes are not modelled
  (\<open>S\<close>, \<open>V\<close>, \<open>Z\<close>, \<open>X\<close>, \<open>x\<close>, \<open>p\<close>, and \<open>yy\<close>, \<open>uu\<close> with their base date) yield
  \<open>NotModelled\<close>, which is not a result of the program.
\<close>

datatype patternError = PatternException exn | NotModelled string

definition isLetter :: "char \<Rightarrow> bool" where
  "isLetter c =
     (c \<in> set ''abcdefghijklmnopqrstuvwxyz'' \<or> c \<in> set ''ABCDEFGHIJKLMNOPQRSTUVWXYZ'')"

definition fieldOfLetter :: "char \<Rightarrow> field option" where
  "fieldOfLetter c =
     map_of [(CHR ''y'', YearOfEra), (CHR ''u'', Year), (CHR ''M'', MonthOfYear),
             (CHR ''L'', MonthOfYear), (CHR ''d'', DayOfMonth), (CHR ''D'', DayOfYear),
             (CHR ''H'', HourOfDay), (CHR ''K'', HourOfAmPm), (CHR ''k'', ClockHourOfDay),
             (CHR ''h'', ClockHourOfAmPm), (CHR ''m'', MinuteOfHour),
             (CHR ''s'', SecondOfMinute), (CHR ''A'', MilliOfDay), (CHR ''n'', NanoOfSecond),
             (CHR ''N'', NanoOfDay), (CHR ''F'', AlignedDayOfWeekInMonth),
             (CHR ''q'', QuarterOfYear)] c"

definition tooManyLetters :: "char \<Rightarrow> patternError" where
  "tooManyLetters c = PatternException (IllegalArgumentException (''Too many pattern letters: '' @ [c]))"

definition liftBuilder :: "exn + builder \<Rightarrow> patternError + builder" where
  "liftBuilder r = (case r of Inl e \<Rightarrow> Inl (PatternException e) | Inr b \<Rightarrow> Inr b)"

definition parseField :: "char \<Rightarrow> nat \<Rightarrow> field \<Rightarrow> builder \<Rightarrow> patternError + builder" where
  "parseField c count f b =
     (if c = CHR ''u'' \<or> c = CHR ''y'' then
        (if count = 1 then liftBuilder (appendValue1 f b)
         else if count = 2 then Inl (NotModelled ''reduced value with base date'')
         else if count = 3 then liftBuilder (appendValue4 f 3 15 NORMAL b)
         else if count \<le> 5 then liftBuilder (appendValue4 f (int count) 15 EXCEEDS_PAD b)
         else Inl (tooManyLetters c))
      else if c = CHR ''D'' then
        (if count = 1 then liftBuilder (appendValue1 f b)
         else if count \<le> 3 then liftBuilder (appendValue2 f (int count) b)
         else Inl (tooManyLetters c))
      else if c = CHR ''F'' then
        (if count = 1 then liftBuilder (appendValue1 f b) else Inl (tooManyLetters c))
      else if c = CHR ''A'' \<or> c = CHR ''n'' \<or> c = CHR ''N'' then
        (if count = 1 then liftBuilder (appendValue1 f b)
         else liftBuilder (appendValue2 f (int count) b))
      else
        (if count = 1 then liftBuilder (appendValue1 f b)
         else if count = 2 then liftBuilder (appendValue2 f 2 b)
         else Inl (tooManyLetters c)))"

text \<open>
  The text of a quoted literal up to its closing apostrophe, with each doubled apostrophe
  taken as one, and the rest of the pattern; \<open>None\<close> when the literal does not close.
\<close>

fun scanQuoted :: "string \<Rightarrow> (string \<times> string) option" where
  "scanQuoted [] = None"
| "scanQuoted [c] = (if c = quote then Some ([], []) else None)"
| "scanQuoted (c # d # cs) =
     (if c = quote then
        (if d = quote then map_option (\<lambda>(lit, rest). (quote # lit, rest)) (scanQuoted cs)
         else Some ([], d # cs))
      else map_option (\<lambda>(lit, rest). (c # lit, rest)) (scanQuoted (d # cs)))"

lemma scanQuoted_shorter: "scanQuoted cs = Some (lit, rest) \<Longrightarrow> length rest < Suc (length cs)"
  by (induction cs arbitrary: lit rest rule: scanQuoted.induct)
     (fastforce split: if_splits)+

function parsePattern :: "string \<Rightarrow> builder \<Rightarrow> patternError + builder" where
  "parsePattern [] b = Inr b"
| "parsePattern (c # cs) b =
     (if isLetter c then
        (case fieldOfLetter c of
           None \<Rightarrow>
             (if c \<in> set ''SVZXxp'' then Inl (NotModelled [c])
              else Inl (PatternException (IllegalArgumentException (''Unknown pattern letter: '' @ [c]))))
         | Some f \<Rightarrow>
             (case parseField c (Suc (length (takeWhile (\<lambda>d. d = c) cs))) f b of
                Inl e \<Rightarrow> Inl e
              | Inr b' \<Rightarrow> parsePattern (dropWhile (\<lambda>d. d = c) cs) b'))
      else if c = quote then
        (case scanQuoted cs of
           None \<Rightarrow> Inl (PatternException (IllegalArgumentException
                     ''Pattern ends with an incomplete string literal''))
         | Some (lit, rest) \<Rightarrow>
             parsePattern rest (appendLiteral (if lit = [] then [quote] else lit) b))
      else if c = CHR ''['' then parsePattern cs (optionalStart b)
      else if c = CHR '']'' then
        (case optionalEnd b of
           Inl e \<Rightarrow> Inl (PatternException (IllegalArgumentException
                     ''Pattern invalid as it contains ] without previous [''))
         | Inr b' \<Rightarrow> parsePattern cs b')
      else if c = CHR ''{'' \<or> c = CHR ''}'' \<or> c = CHR ''#'' then
        Inl (PatternException (IllegalArgumentException (''Pattern includes reserved character: '' @ [c])))
      else parsePattern cs (appendLiteral [c] b))"
  by pat_completeness auto
termination
  by (relation "measure (\<lambda>(cs, b). length cs)")
     (auto simp: less_Suc_eq_le length_dropWhile_le dest: scanQuoted_shorter)

definition appendPattern :: "string \<Rightarrow> builder \<Rightarrow> patternError + builder" where
  "appendPattern pattern b = parsePattern pattern b"

section \<open>Example objects\<close>

text \<open>
  Objects for the closed instances of the theorems below: a printer-parser that consumes the
  whole text, one that consumes one character and fails at the end of the text, and a
  formatter around a printer-parser. External objects are numbers here.
\<close>

definition consumeAll :: "nat PrinterParser" where
  "consumeAll = \<lparr>pp_parse = (\<lambda>ctx t pos. Inr (int (length t), ctx)), pp_toString = ''()''\<rparr>"

definition consumeOne :: "nat PrinterParser" where
  "consumeOne =
     \<lparr>pp_parse = (\<lambda>ctx t pos. if pos < int (length t) then Inr (pos + 1, ctx)
                                else Inr (- pos - 1, ctx)),
      pp_toString = ''()''\<rparr>"

text \<open>
  A \<open>MathUtil\<close> whose arithmetic is exact and never throws. Its \<open>parseInt\<close> is
  \<open>decimalInt\<close>, which reads an optional sign, \<open>-\<close> or \<open>+\<close>, and then one or more decimal
  digits, and throws on any other text.
\<close>

definition digitsInt :: "bool \<Rightarrow> string \<Rightarrow> exn + int" where
  "digitsInt negative digits =
     (if digits \<noteq> [] \<and> list_all isDigit digits
      then Inr (if negative then - int (numberValue digits) else int (numberValue digits))
      else Inl (ArithmeticException ''Invalid number''))"

definition decimalInt :: "string \<Rightarrow> exn + int" where
  "decimalInt s =
     (case s of
        [] \<Rightarrow> digitsInt False []
      | c # cs \<Rightarrow>
          if c = CHR ''-'' then digitsInt True cs
          else if c = CHR ''+'' then digitsInt False cs
          else digitsInt False s)"

definition exactMathUtil :: MathUtil where
  "exactMathUtil =
     \<lparr>safeToInt = Inr,
      safeAdd = (\<lambda>a b. Inr (a + b)),
      safeMultiply = (\<lambda>a b. Inr (a * b)),
      parseInt = decimalInt\<rparr>"

definition formatterOf :: "nat PrinterParser \<Rightarrow> nat DateTimeFormatter" where
  "formatterOf pp =
     \<lparr>f_printerParser = pp, f_locale = Null, f_decimalStyle = 0, f_resolverStyle = STRICT,
      f_resolverFields = Null, f_chrono = Obj 1, f_zone = Null\<rparr>"

section \<open>Period: construction\<close>

lemma word32_of_int_eq_0:
  assumes "\<bar>a\<bar> < 2 ^ 31"
  shows "(word_of_int a :: 32 word) = 0 \<longleftrightarrow> a = 0"
proof
  assume "(word_of_int a :: 32 word) = 0"
  then have d: "(2 ^ 32 :: int) dvd a"
    by (simp add: word_of_int_eq_0_iff)
  show "a = 0"
  proof (rule ccontr)
    assume "a \<noteq> 0"
    with d have "(2 ^ 32 :: int) \<le> \<bar>a\<bar>"
      using dvd_imp_le_int [of a "2 ^ 32"] by simp
    with assms show False by simp
  qed
next
  assume "a = 0"
  then show "(word_of_int a :: 32 word) = 0" by simp
qed

lemma js_bitor3_eq_0:
  assumes "\<bar>y\<bar> < 2 ^ 31" "\<bar>m\<bar> < 2 ^ 31" "\<bar>d\<bar> < 2 ^ 31"
  shows "js_bitor (js_bitor y m) d = 0 \<longleftrightarrow> y = 0 \<and> m = 0 \<and> d = 0"
proof -
  have "js_bitor (js_bitor y m) d = 0 \<longleftrightarrow>
        ((word_of_int y :: 32 word) OR word_of_int m) OR word_of_int d = 0"
    by (simp add: js_bitor_def signed_eq_0_iff)
  also have "\<dots> \<longleftrightarrow> (word_of_int y :: 32 word) = 0 \<and> (word_of_int m :: 32 word) = 0
                  \<and> (word_of_int d :: 32 word) = 0"
    by (simp add: or_eq_0_iff)
  also have "\<dots> \<longleftrightarrow> y = 0 \<and> m = 0 \<and> d = 0"
    using assms by (simp add: word32_of_int_eq_0)
  finally show ?thesis .
qed

text \<open>
  Outside the range the zero test can hold for an amount that is not zero: \<open>2^32\<close> years
  give the singleton, whatever \<open>MathUtil\<close> does.
\<close>

lemma Period_of_two_to_32: "Period_of mu 4294967296 0 0 = Inr ZERO"
  by (simp add: Period_of_def Period_create_def Period_constructor_def js_bitor_def)

text \<open>
  C8. For integers \<open>y\<close>, \<open>m\<close>, \<open>d\<close> of absolute value below \<open>2^31\<close>, and a
  \<open>MathUtil.safeToInt\<close> that accepts every such integer, \<open>Period.of(y, m, d)\<close> returns the
  singleton \<open>Period.ZERO\<close> exactly when \<open>y = m = d = 0\<close>; otherwise it returns an object that
  is not the singleton and whose \<open>years()\<close>, \<open>months()\<close> and \<open>days()\<close> are \<open>y\<close>, \<open>m\<close> and \<open>d\<close>;
  \<open>isZero()\<close> holds of the singleton only.
\<close>

theorem Period_of_zero_singleton:
  assumes "\<bar>y\<bar> < 2 ^ 31" and "\<bar>m\<bar> < 2 ^ 31" and "\<bar>d\<bar> < 2 ^ 31"
    and "\<forall>v. \<bar>v\<bar> < 2 ^ 31 \<longrightarrow> safeToInt mu v = Inr v"
  shows "(Period_of mu y m d = Inr ZERO \<longleftrightarrow> y = 0 \<and> m = 0 \<and> d = 0)
       \<and> (\<exists>p. Period_of mu y m d = Inr p \<and> years p = y \<and> months p = m \<and> days p = d
              \<and> (isZero p \<longleftrightarrow> y = 0 \<and> m = 0 \<and> d = 0))
       \<and> (\<forall>q. isZero q \<longleftrightarrow> q = ZERO)"
proof (cases "y = 0 \<and> m = 0 \<and> d = 0")
  case True
  with assms show ?thesis
    by (simp add: Period_of_def Period_create_def Period_constructor_def js_bitor3_eq_0
        isZero_def)
next
  case False
  with assms(1-3) have nz: "js_bitor (js_bitor y m) d \<noteq> 0"
    by (simp add: js_bitor3_eq_0)
  from assms have v: "Period_validate mu y m d = Inr ()"
    by (simp add: Period_validate_def)
  from nz v have "Period_of mu y m d = Inr (Instance y m d)"
    by (simp add: Period_of_def Period_create_def Period_constructor_def)
  with False show ?thesis
    by (auto simp: isZero_def)
qed

theorem Period_of_zero_singleton_witness:
  "(Period_of \<lparr>safeToInt = Inr, safeAdd = (\<lambda>a b. Inr (a + b)),
              safeMultiply = (\<lambda>a b. Inr (a * b)), parseInt = (\<lambda>s. Inr 0)\<rparr> 1 (-2) 0 = Inr ZERO
      \<longleftrightarrow> (1::int) = 0 \<and> (-2::int) = 0 \<and> (0::int) = 0)
   \<and> (\<exists>p. Period_of \<lparr>safeToInt = Inr, safeAdd = (\<lambda>a b. Inr (a + b)),
              safeMultiply = (\<lambda>a b. Inr (a * b)), parseInt = (\<lambda>s. Inr 0)\<rparr> 1 (-2) 0 = Inr p
          \<and> years p = 1 \<and> months p = -2 \<and> days p = 0 \<and> \<not> isZero p)"
  using Period_of_zero_singleton [of 1 "-2" 0
      "\<lparr>safeToInt = Inr, safeAdd = (\<lambda>a b. Inr (a + b)),
        safeMultiply = (\<lambda>a b. Inr (a * b)), parseInt = (\<lambda>s. Inr 0)\<rparr>"]
  by auto

section \<open>DateTimeFormatter: the position contract of parseUnresolved\<close>

lemma js_bitnot_negative:
  assumes "- (2 ^ 31) \<le> pos" and "pos < 0"
  shows "js_bitnot pos = - pos - 1"
proof -
  have "NOT (word_of_int pos :: 32 word) = word_of_int (- pos - 1)"
    by (simp add: not_eq_complement)
  moreover have "sint (word_of_int (- pos - 1) :: 32 word) = - pos - 1"
    unfolding sint_sbintrunc' using assms by (simp add: signed_take_bit_int_eq_self)
  ultimately show ?thesis by (simp add: js_bitnot_def)
qed

text \<open>
  C4. Let the root printer-parser return the number \<open>pos\<close> for the text, started at
  \<open>position.index\<close>, where \<open>pos\<close> is not below \<open>-2^31\<close> (a failure is reported as the bitwise
  complement of an error position, which is a signed 32-bit integer). If \<open>pos\<close> is negative,
  \<open>parseUnresolved\<close> returns null and sets \<open>errorIndex\<close> to the bitwise complement of \<open>pos\<close>,
  which is \<open>-pos - 1\<close> and not negative, and leaves \<open>index\<close> as it was. Otherwise it returns
  the parsed bindings and sets \<open>index\<close> to \<open>pos\<close>, and leaves \<open>errorIndex\<close> as it was.
\<close>

theorem parseUnresolved_position_contract:
  assumes "pp_parse (f_printerParser f) (DateTimeParseContext_new f) text (index position)
             = Inr (pos, ctx')"
    and "- (2 ^ 31) \<le> pos"
  shows "(pos < 0 \<longrightarrow>
            parseUnresolved f (Some text) (Some position)
              = Inr (None, position\<lparr>errorIndex := js_bitnot pos\<rparr>)
            \<and> js_bitnot pos = - pos - 1 \<and> 0 \<le> js_bitnot pos)
       \<and> (0 \<le> pos \<longrightarrow>
            parseUnresolved f (Some text) (Some position)
              = Inr (Some (toParsed ctx'), position\<lparr>index := pos\<rparr>))"
  using assms
  by (simp add: parseUnresolved_def parseUnresolved0_def getIndex_def setIndex_def
      setErrorIndex_def js_bitnot_negative)

theorem parseUnresolved_position_contract_witness:
  "parseUnresolved (formatterOf consumeOne) (Some ''ab'') (Some \<lparr>index = 2, errorIndex = - 1\<rparr>)
     = Inr (None, \<lparr>index = 2, errorIndex = 2\<rparr>)
   \<and> parseUnresolved (formatterOf consumeOne) (Some ''ab'') (Some \<lparr>index = 0, errorIndex = - 1\<rparr>)
     = Inr (Some Parsed_new, \<lparr>index = 1, errorIndex = - 1\<rparr>)"
  using parseUnresolved_position_contract [of "formatterOf consumeOne" "''ab''"
      "\<lparr>index = 2, errorIndex = - 1\<rparr>" "- 3" "DateTimeParseContext_new (formatterOf consumeOne)"]
    parseUnresolved_position_contract [of "formatterOf consumeOne" "''ab''"
      "\<lparr>index = 0, errorIndex = - 1\<rparr>" "1" "DateTimeParseContext_new (formatterOf consumeOne)"]
  by (simp add: formatterOf_def consumeOne_def toParsed_def currentParsed_def
      DateTimeParseContext_new_def)

section \<open>DateTimeFormatter: parse requires the whole text\<close>

text \<open>
  C5. For \<open>parse(text)\<close> and \<open>parse(text, type)\<close>: if the root printer-parser, started at
  position \<open>0\<close>, succeeds at a final index \<open>n\<close> below the length of the text, the call throws a
  \<open>DateTimeParseException\<close> with the message
  \<open>Text '...' could not be parsed, unparsed text found at index n\<close>; and if the call returns a
  value, the root printer-parser returned a position that is not below the length of the text.
\<close>

theorem parse_requires_whole_text:
  "(\<forall>n ctx'. pp_parse (f_printerParser f) (DateTimeParseContext_new f) text 0 = Inr (n, ctx')
        \<and> 0 \<le> n \<and> n < int (length text) \<longrightarrow>
      parse1 toBuilder resolve f (Some text)
        = Inl (DateTimeParseException
                (''Text '' @ [quote] @ abbreviate text @ [quote]
                   @ '' could not be parsed, unparsed text found at index '' @ int_to_string n)
                text n None)
      \<and> parse2 toBuilder resolve build f (Some text) (Some type)
        = Inl (DateTimeParseException
                (''Text '' @ [quote] @ abbreviate text @ [quote]
                   @ '' could not be parsed, unparsed text found at index '' @ int_to_string n)
                text n None))
   \<and> (\<forall>v. parse1 toBuilder resolve f (Some text) = Inr v \<longrightarrow>
        (\<exists>n ctx'. pp_parse (f_printerParser f) (DateTimeParseContext_new f) text 0 = Inr (n, ctx')
           \<and> int (length text) \<le> n))
   \<and> (\<forall>w. parse2 toBuilder resolve build f (Some text) (Some type) = Inr w \<longrightarrow>
        (\<exists>n ctx'. pp_parse (f_printerParser f) (DateTimeParseContext_new f) text 0 = Inr (n, ctx')
           \<and> int (length text) \<le> n))"
proof (intro conjI allI impI)
  fix n ctx'
  assume a: "pp_parse (f_printerParser f) (DateTimeParseContext_new f) text 0 = Inr (n, ctx')
        \<and> 0 \<le> n \<and> n < int (length text)"
  then have u: "parseUnresolved0 f (Some text) (Some (ParsePosition_new 0))
                 = Inr (Some (toParsed ctx'), \<lparr>index = n, errorIndex = - 1\<rparr>)"
    by (simp add: parseUnresolved0_def ParsePosition_new_def getIndex_def setIndex_def)
  have b: "parseToBuilder toBuilder f text None
         = Inl (DateTimeParseException
                (''Text '' @ [quote] @ abbreviate text @ [quote]
                   @ '' could not be parsed, unparsed text found at index '' @ int_to_string n)
                text n None)"
    using a by (simp add: parseToBuilder_def u getErrorIndex_def getIndex_def)
  show "parse1 toBuilder resolve f (Some text)
        = Inl (DateTimeParseException
                (''Text '' @ [quote] @ abbreviate text @ [quote]
                   @ '' could not be parsed, unparsed text found at index '' @ int_to_string n)
                text n None)"
    by (simp add: parse1_def b wrapError_def isDateTimeParseException_def)
  show "parse2 toBuilder resolve build f (Some text) (Some type)
        = Inl (DateTimeParseException
                (''Text '' @ [quote] @ abbreviate text @ [quote]
                   @ '' could not be parsed, unparsed text found at index '' @ int_to_string n)
                text n None)"
    by (simp add: parse2_def b wrapError_def isDateTimeParseException_def)
next
  fix v
  assume "parse1 toBuilder resolve f (Some text) = Inr v"
  then obtain b where "parseToBuilder toBuilder f text None = Inr b"
    by (auto simp: parse1_def split: sum.splits)
  then show "\<exists>n ctx'. pp_parse (f_printerParser f) (DateTimeParseContext_new f) text 0 = Inr (n, ctx')
           \<and> int (length text) \<le> n"
    by (auto simp: parseToBuilder_def parseUnresolved0_def ParsePosition_new_def getIndex_def
        setIndex_def setErrorIndex_def getErrorIndex_def Let_def
        split: sum.splits if_splits prod.splits option.splits)
next
  fix w
  assume "parse2 toBuilder resolve build f (Some text) (Some type) = Inr w"
  then obtain b where "parseToBuilder toBuilder f text None = Inr b"
    by (auto simp: parse2_def split: sum.splits)
  then show "\<exists>n ctx'. pp_parse (f_printerParser f) (DateTimeParseContext_new f) text 0 = Inr (n, ctx')
           \<and> int (length text) \<le> n"
    by (auto simp: parseToBuilder_def parseUnresolved0_def ParsePosition_new_def getIndex_def
        setIndex_def setErrorIndex_def getErrorIndex_def Let_def
        split: sum.splits if_splits prod.splits option.splits)
qed

theorem parse_requires_whole_text_witness:
  "parse1 id (\<lambda>b style fields. Inr b) (formatterOf consumeOne) (Some ''ab'')
     = Inl (DateTimeParseException
             (''Text '' @ [quote] @ ''ab'' @ [quote]
                @ '' could not be parsed, unparsed text found at index 1'') ''ab'' 1 None)
   \<and> parse1 id (\<lambda>b style fields. Inr b) (formatterOf consumeAll) (Some ''ab'') = Inr Parsed_new"
proof -
  have p: "parse1 id (\<lambda>b style fields. Inr b) (formatterOf consumeAll) (Some ''ab'') = Inr Parsed_new"
    by (simp add: parse1_def parseToBuilder_def parseUnresolved0_def ParsePosition_new_def
      getIndex_def setIndex_def getErrorIndex_def formatterOf_def consumeAll_def
      toParsed_def currentParsed_def DateTimeParseContext_new_def)
  from parse_requires_whole_text [of "formatterOf consumeOne" "''ab''" id "\<lambda>b style fields. Inr b"
      "\<lambda>b q. Inr b" "()"]
  have "parse1 id (\<lambda>b style fields. Inr b) (formatterOf consumeOne) (Some ''ab'')
     = Inl (DateTimeParseException
             (''Text '' @ [quote] @ ''ab'' @ [quote]
                @ '' could not be parsed, unparsed text found at index 1'') ''ab'' 1 None)"
    by (simp add: formatterOf_def consumeOne_def abbreviate_def int_to_string_def
        nat_to_string.simps digit_char_def)
  moreover from parse_requires_whole_text [of "formatterOf consumeAll" "''ab''" id
      "\<lambda>b style fields. Inr b" "\<lambda>b q. Inr b" "()"] p
  have "\<exists>n ctx'. pp_parse (f_printerParser (formatterOf consumeAll))
           (DateTimeParseContext_new (formatterOf consumeAll)) ''ab'' 0 = Inr (n, ctx')
           \<and> int (length ''ab'') \<le> n"
    by blast
  ultimately show ?thesis using p by simp
qed

section \<open>DateTimeFormatter: wrapping of failures that are not parse exceptions\<close>

text \<open>
  When the text was parsed to the end and the resolver throws an exception that is not a
  \<open>DateTimeParseException\<close>, \<open>parse(text)\<close> throws a \<open>DateTimeParseException\<close> that carries the
  text if the text has at most 64 characters, and a \<open>TypeError\<close> if it has more.
\<close>

lemma parse1_resolver_failure:
  assumes "parseToBuilder toBuilder f text None = Inr b"
    and "resolve b (f_resolverStyle f) (f_resolverFields f) = Inl ex"
    and "\<not> isDateTimeParseException ex"
  shows "parse1 toBuilder resolve f (Some text) =
           (if length text > 64 then Inl (TypeError ''text.subString is not a function'')
            else Inl (DateTimeParseException
                  (''Text '' @ [quote] @ text @ [quote] @ '' could not be parsed: '' @ message ex)
                  text 0 (Some ex)))"
  using assms by (simp add: parse1_def wrapError_def createError_def)

text \<open>
  C2. Every failure of \<open>parse(text)\<close> whose cause is not a \<open>DateTimeParseException\<close> is
  to be thrown as a \<open>DateTimeParseException\<close> whose message holds the text, abbreviated to
  64 characters and \<open>...\<close> when it is longer. The code does not do so for a longer text: at
  a text of 65 characters that is parsed to its end, with a resolver that throws a
  \<open>DateTimeException\<close>, it throws a \<open>TypeError\<close>.
\<close>

theorem parse1_long_text_not_wrapped:
  "parse1 id (\<lambda>b style fields. Inl (DateTimeException ''Invalid date'')) (formatterOf consumeAll)
      (Some (replicate 65 (CHR ''a'')))
     = Inl (TypeError ''text.subString is not a function'')"
  by (simp add: parse1_def parseToBuilder_def parseUnresolved0_def ParsePosition_new_def
      getIndex_def setIndex_def getErrorIndex_def formatterOf_def consumeAll_def
      wrapError_def createError_def isDateTimeParseException_def)

section \<open>DateTimeFormatter: withChronology\<close>

text \<open>
  C7. For a formatter object \<open>this\<close> of the store and a chronology \<open>c\<close> (an object or null):
  if the override chronology of the formatter is an object whose \<open>equals(c)\<close> holds,
  \<open>withChronology(c)\<close> returns \<open>this\<close> and the store is unchanged; otherwise it returns a
  new object whose chronology is \<open>c\<close> and whose printer-parser, locale, decimal style,
  resolver style, resolver fields and zone are those of \<open>this\<close>, and every object that the
  store held, \<open>this\<close> among them, is unchanged.
\<close>

theorem withChronology_frame:
  assumes "this < length st" and "c \<noteq> Undefined"
  shows "((\<exists>a. f_chrono (st ! this) = Obj a \<and> equals a c) \<longrightarrow>
            withChronology equals isoChronology st this c = Inr (this, st))
       \<and> (\<not> (\<exists>a. f_chrono (st ! this) = Obj a \<and> equals a c) \<longrightarrow>
            (\<exists>r st'. withChronology equals isoChronology st this c = Inr (r, st')
               \<and> r = length st \<and> r \<noteq> this \<and> length st' = Suc (length st)
               \<and> chronology (st' ! r) = c
               \<and> f_printerParser (st' ! r) = f_printerParser (st ! this)
               \<and> f_locale (st' ! r) = f_locale (st ! this)
               \<and> f_decimalStyle (st' ! r) = f_decimalStyle (st ! this)
               \<and> f_resolverStyle (st' ! r) = f_resolverStyle (st ! this)
               \<and> f_resolverFields (st' ! r) = f_resolverFields (st ! this)
               \<and> f_zone (st' ! r) = f_zone (st ! this)
               \<and> (\<forall>i < length st. st' ! i = st ! i)))"
proof (cases "\<exists>a. f_chrono (st ! this) = Obj a \<and> equals a c")
  case True
  then show ?thesis
    by (auto simp: withChronology_def)
next
  case False
  then have nc: "\<not> (case f_chrono (st ! this) of Obj a \<Rightarrow> equals a c | _ \<Rightarrow> False)"
    by (cases "f_chrono (st ! this)") auto
  have "withChronology equals isoChronology st this c
          = Inr (length st, st @ [(st ! this)\<lparr>f_chrono := c\<rparr>])"
    using nc assms(2)
    by (simp add: withChronology_def DateTimeFormatter_constructor_def Let_def)
  with False assms show ?thesis
    by (simp add: chronology_def nth_append)
qed

theorem withChronology_frame_witness:
  "withChronology (\<lambda>a c. c = Obj a) 7 [formatterOf consumeAll] 0 (Obj 1)
     = Inr (0, [formatterOf consumeAll])
   \<and> (\<exists>r st'. withChronology (\<lambda>a c. c = Obj a) 7 [formatterOf consumeAll] 0 (Obj 2) = Inr (r, st')
        \<and> r = 1 \<and> chronology (st' ! r) = Obj 2
        \<and> f_decimalStyle (st' ! r) = 0 \<and> st' ! 0 = formatterOf consumeAll)"
  using withChronology_frame [of 0 "[formatterOf consumeAll]" "Obj 1" "\<lambda>a c. c = Obj a" 7]
    withChronology_frame [of 0 "[formatterOf consumeAll]" "Obj 2" "\<lambda>a c. c = Obj a" 7]
  by (auto simp: formatterOf_def)

section \<open>DateTimeFormatter: the queries of the parse result\<close>


section \<open>Evaluation of the modelled builder and nodes\<close>

lemmas parse_defs = node_pp_def parseValue_def parseReduced_def parseLiteral_def setParsedField_def
  complement_def currentParsed_def toParsed_def DateTimeParseContext_new_def Parsed_new_def
  isDigit_def digitValue_def numberValue_def signAccepted_def charsEqual_def
  parseUnresolved_def parseUnresolved0_def ParsePosition_new_def getIndex_def setIndex_def
  setErrorIndex_def toFormatter_def Let_def

lemmas builder_defs = DateTimeFormatterBuilder_new_def newFrame_def appendValue1_def appendValue2_def
  appendValue4_def appendValueReduced_def appendValueNode_def frameAppendValue_def frameAppendFixed_def
  frameActiveValue_def addSubsequentWidth_def frameAppend_def appendInternal_def appendLiteral_def
  optionalStart_def optionalEnd_def closeFrame_def


section \<open>Adjacent-value parsing\<close>

text \<open>
  C1. The builder calls \<open>appendValue(MonthOfYear, 1, 2, NORMAL)\<close> and
  \<open>appendValue(DayOfMonth, 2)\<close> succeed; for the formatter of the builder, \<open>parseUnresolved\<close>
  from position \<open>0\<close> binds on \<open>123\<close> the month \<open>1\<close> and the day \<open>23\<close> and ends at index \<open>3\<close>,
  and binds on \<open>0123\<close> the month \<open>1\<close> and the day \<open>23\<close> (and ends at index \<open>4\<close>).
\<close>

theorem adjacent_value_parse_month_day:
  "\<exists>b1 b2 cal3 pos3 cal4 pos4.
      appendValue4 MonthOfYear 1 2 NORMAL DateTimeFormatterBuilder_new = Inr b1
    \<and> appendValue2 DayOfMonth 2 b1 = Inr b2
    \<and> parseUnresolved (toFormatter decimalStyle SMART b2) (Some ''123'') (Some (ParsePosition_new 0))
        = Inr (Some cal3, pos3)
    \<and> fieldValues cal3 MonthOfYear = Some 1 \<and> fieldValues cal3 DayOfMonth = Some 23
    \<and> index pos3 = 3
    \<and> parseUnresolved (toFormatter decimalStyle SMART b2) (Some ''0123'') (Some (ParsePosition_new 0))
        = Inr (Some cal4, pos4)
    \<and> fieldValues cal4 MonthOfYear = Some 1 \<and> fieldValues cal4 DayOfMonth = Some 23
    \<and> index pos4 = 4"
  by (simp add: builder_defs parse_defs)


section \<open>Reduced values\<close>

lemma digitValue_less: "isDigit c \<Longrightarrow> digitValue c < 10"
  by (auto simp: isDigit_def digitValue_def)

lemma numberValue_snoc: "numberValue (ds @ [c]) = 10 * numberValue ds + digitValue c"
  by (simp add: numberValue_def)

lemma numberValue_bound: "list_all isDigit ds \<Longrightarrow> numberValue ds < 10 ^ length ds"
proof (induction ds rule: rev_induct)
  case Nil
  then show ?case by (simp add: numberValue_def)
next
  case (snoc c ds)
  then have "numberValue ds < 10 ^ length ds" and "digitValue c < 10"
    by (simp_all add: digitValue_less)
  then have "10 * numberValue ds + digitValue c < 10 * 10 ^ length ds"
    by arith
  then show ?case by (simp add: numberValue_snoc)
qed

lemma setParsedField_success:
  assumes "setParsedField f v errorPos successPos ctx = (p', ctx')"
    and "0 \<le> errorPos" and "0 \<le> p'"
  shows "fieldValues (currentParsed ctx') f = Some v"
  using assms
  by (auto simp: setParsedField_def complement_def currentParsed_def
      split: option.splits if_splits list.splits)

lemma reduced_window:
  fixes baseValue :: int
  assumes "d < 10 ^ width" and "0 \<le> d"
  shows "baseValue \<le> (if baseValue - baseValue mod 10 ^ width + d < baseValue
                      then baseValue - baseValue mod 10 ^ width + d + 10 ^ width
                      else baseValue - baseValue mod 10 ^ width + d)"
    and "(if baseValue - baseValue mod 10 ^ width + d < baseValue
                      then baseValue - baseValue mod 10 ^ width + d + 10 ^ width
                      else baseValue - baseValue mod 10 ^ width + d) < baseValue + 10 ^ width"
proof -
  define r where "r = baseValue mod 10 ^ width"
  have "0 \<le> r" and "r < 10 ^ width"
    by (simp_all add: r_def)
  with assms show "baseValue \<le> (if baseValue - baseValue mod 10 ^ width + d < baseValue
                      then baseValue - baseValue mod 10 ^ width + d + 10 ^ width
                      else baseValue - baseValue mod 10 ^ width + d)"
    unfolding r_def [symmetric] by auto
  from \<open>0 \<le> r\<close> \<open>r < 10 ^ width\<close> assms
  show "(if baseValue - baseValue mod 10 ^ width + d < baseValue
                      then baseValue - baseValue mod 10 ^ width + d + 10 ^ width
                      else baseValue - baseValue mod 10 ^ width + d) < baseValue + 10 ^ width"
    unfolding r_def [symmetric] by auto
qed


text \<open>
  C3. Whenever a node \<open>ReducedValue(field, width, maxWidth, baseValue)\<close> parses successfully
  from a position of the text, the field is bound to a value from \<open>baseValue\<close> up to, but not
  including, \<open>baseValue + 10^width\<close>. The formatter built by
  \<open>appendValueReduced(Year, 2, 2, 2000)\<close> parses \<open>12\<close> to the year \<open>2012\<close> and \<open>99\<close> to the
  year \<open>2099\<close>.
\<close>

theorem reduced_value_window:
  "(\<forall>(ctx :: 'x DateTimeParseContext) text p p' ctx'.
       node_parse (ReducedValue f width maxWidth baseValue) ctx text p = (p', ctx')
       \<and> 0 \<le> p \<and> 0 \<le> p' \<longrightarrow>
       (\<exists>v. fieldValues (currentParsed ctx') f = Some v
            \<and> baseValue \<le> v \<and> v < baseValue + 10 ^ width))
   \<and> (\<exists>b cal pos. appendValueReduced Year 2 2 2000 DateTimeFormatterBuilder_new = Inr b
        \<and> parseUnresolved (toFormatter decimalStyle SMART b) (Some ''12'') (Some (ParsePosition_new 0))
            = Inr (Some cal, pos)
        \<and> fieldValues cal Year = Some 2012)
   \<and> (\<exists>b cal pos. appendValueReduced Year 2 2 2000 DateTimeFormatterBuilder_new = Inr b
        \<and> parseUnresolved (toFormatter decimalStyle SMART b) (Some ''99'') (Some (ParsePosition_new 0))
            = Inr (Some cal, pos)
        \<and> fieldValues cal Year = Some 2099)"
proof (intro conjI allI impI)
  fix ctx :: "'x DateTimeParseContext" and tx p p' ctx'
  assume a: "node_parse (ReducedValue f width maxWidth baseValue) ctx tx p = (p', ctx')
       \<and> 0 \<le> p \<and> 0 \<le> p'"
  then have a1: "parseReduced f width baseValue ctx tx p = (p', ctx')"
    and a2: "0 \<le> p" and a3: "0 \<le> p'"
    by simp_all
  define run where "run = takeWhile isDigit (take width (drop (nat p) tx))"
  define d where "d = int (numberValue run)"
  define v where "v = (if baseValue - baseValue mod 10 ^ width + d < baseValue
                      then baseValue - baseValue mod 10 ^ width + d + 10 ^ width
                      else baseValue - baseValue mod 10 ^ width + d)"
  have len: "length run \<le> width"
    unfolding run_def by (rule order_trans [OF length_takeWhile_le]) simp
  have nr: "\<not> length run < width"
  proof
    assume "length run < width"
    with a1 a2 have "p' = complement p"
      by (simp add: parseReduced_def run_def Let_def)
    with a2 a3 show False by (simp add: complement_def)
  qed
  with len have lw: "length run = width" by simp
  have "list_all isDigit run"
    unfolding run_def list_all_iff by (auto dest: set_takeWhileD)
  then have "numberValue run < 10 ^ length run"
    by (rule numberValue_bound)
  then have "int (numberValue run) < int (10 ^ length run)"
    by (simp only: of_nat_less_iff)
  then have dlt: "d < 10 ^ width" and d0: "0 \<le> d"
    unfolding d_def lw by simp_all
  from a1 a2 nr have s: "setParsedField f v p (p + int width) ctx = (p', ctx')"
    by (auto simp: parseReduced_def run_def Let_def d_def v_def)
  from s a2 a3 have "fieldValues (currentParsed ctx') f = Some v"
    by (rule setParsedField_success)
  moreover from reduced_window [OF dlt d0, of baseValue]
  have "baseValue \<le> v" and "v < baseValue + 10 ^ width"
    by (simp_all add: v_def)
  ultimately show "\<exists>v. fieldValues (currentParsed ctx') f = Some v
            \<and> baseValue \<le> v \<and> v < baseValue + 10 ^ width"
    by blast
next
  show "\<exists>b cal pos. appendValueReduced Year 2 2 2000 DateTimeFormatterBuilder_new = Inr b
        \<and> parseUnresolved (toFormatter decimalStyle SMART b) (Some ''12'') (Some (ParsePosition_new 0))
            = Inr (Some cal, pos)
        \<and> fieldValues cal Year = Some 2012"
    by (simp add: builder_defs parse_defs)
next
  show "\<exists>b cal pos. appendValueReduced Year 2 2 2000 DateTimeFormatterBuilder_new = Inr b
        \<and> parseUnresolved (toFormatter decimalStyle SMART b) (Some ''99'') (Some (ParsePosition_new 0))
            = Inr (Some cal, pos)
        \<and> fieldValues cal Year = Some 2099"
    by (simp add: builder_defs parse_defs)
qed


theorem reduced_value_window_witness:
  "\<exists>v. fieldValues (currentParsed (snd (node_parse (ReducedValue Year 2 2 2000)
             (DateTimeParseContext_new (formatterOf consumeAll)) ''12'' 0))) Year = Some v
       \<and> 2000 \<le> v \<and> v < 2000 + 10 ^ 2"
proof -
  have e: "node_parse (ReducedValue Year 2 2 2000)
             (DateTimeParseContext_new (formatterOf consumeAll)) ''12'' 0
           = (2, snd (node_parse (ReducedValue Year 2 2 2000)
             (DateTimeParseContext_new (formatterOf consumeAll)) ''12'' 0))"
    by (simp add: parse_defs)
  from reduced_value_window [of Year 2 2 2000 "0::nat"] e show ?thesis
    by fastforce
qed


section \<open>DateTimeFormatter: toString\<close>

lemma js_substring_inner: "js_substring (a # body @ [z]) 1 (int (length (a # body @ [z])) - 1) = body"
  by (simp add: js_substring_def Let_def)

lemma rootNode_composite: "\<exists>ns. rootNode b = Composite ns False"
  by (induction b rule: rootNode.induct) simp_all


text \<open>
  C6. \<open>toString()\<close> returns the printed form of the root with its outer round brackets
  stripped when they are present: if the root of a formatter prints as a text in round
  brackets, \<open>toString()\<close> is that text without the brackets, and if the printed form starts
  with a square bracket (the root is an optional group), \<open>toString()\<close> is the printed form
  as it is. The root of the formatter of a builder is a composite that is not optional,
  which prints in round brackets, and \<open>toString()\<close> is the concatenation of the printed forms
  of its nodes. For the empty builder \<open>toString()\<close> is the empty string, and for the pattern
  \<open>uuuu[-MM[-dd]]\<close> it is
  \<open>Value(Year,4,15,EXCEEDS_PAD)['-'Value(MonthOfYear,2)['-'Value(DayOfMonth,2)]]\<close>.
\<close>

theorem toString_strips_composite_brackets:
  "(\<forall>body. pp_toString (f_printerParser f) = ''('' @ body @ '')'' \<longrightarrow> toString f = body)
   \<and> (\<forall>rest. pp_toString (f_printerParser f) = ''['' @ rest \<longrightarrow>
          toString f = ''['' @ rest)
   \<and> (\<exists>ns. rootNode b = Composite ns False
          \<and> pp_toString (f_printerParser (toFormatter decimalStyle resolverStyle b))
              = ''('' @ concat (map node_toString ns) @ '')''
          \<and> toString (toFormatter decimalStyle resolverStyle b) = concat (map node_toString ns))
   \<and> toString (toFormatter decimalStyle resolverStyle DateTimeFormatterBuilder_new) = []
   \<and> (\<exists>b'. appendPattern ''uuuu[-MM[-dd]]'' DateTimeFormatterBuilder_new = Inr b'
          \<and> toString (toFormatter decimalStyle resolverStyle b')
              = ''Value(Year,4,15,EXCEEDS_PAD)['' @ [quote] @ ''-'' @ [quote]
                  @ ''Value(MonthOfYear,2)['' @ [quote] @ ''-'' @ [quote]
                  @ ''Value(DayOfMonth,2)]]'')"
proof (intro conjI allI impI)
  fix body
  assume "pp_toString (f_printerParser f) = ''('' @ body @ '')''"
  then show "toString f = body"
    using js_substring_inner [of "CHR ''(''" body "CHR '')''"]
    by (simp add: toString_def startsWithBracket_def)
next
  fix rest
  assume "pp_toString (f_printerParser f) = ''['' @ rest"
  then show "toString f = ''['' @ rest"
    by (simp add: toString_def startsWithBracket_def)
next
  obtain ns where ns: "rootNode b = Composite ns False"
    using rootNode_composite by blast
  have "toString (toFormatter decimalStyle resolverStyle b) = concat (map node_toString ns)"
    using js_substring_inner [of "CHR ''(''" "concat (map node_toString ns)" "CHR '')''"]
    by (simp add: toString_def startsWithBracket_def toFormatter_def node_pp_def ns)
  with ns show "\<exists>ns. rootNode b = Composite ns False
          \<and> pp_toString (f_printerParser (toFormatter decimalStyle resolverStyle b))
              = ''('' @ concat (map node_toString ns) @ '')''
          \<and> toString (toFormatter decimalStyle resolverStyle b) = concat (map node_toString ns)"
    by (simp add: toFormatter_def node_pp_def)
next
  show "toString (toFormatter decimalStyle resolverStyle DateTimeFormatterBuilder_new) = []"
    by (simp add: toString_def startsWithBracket_def toFormatter_def node_pp_def
        DateTimeFormatterBuilder_new_def newFrame_def js_substring_def)
next
  have "appendPattern ''uuuu[-MM[-dd]]'' DateTimeFormatterBuilder_new
          = Inr [\<lparr>printerParsers =
                    [Value Year 4 15 EXCEEDS_PAD 0,
                     Composite [Literal ''-'', Value MonthOfYear 2 2 NOT_NEGATIVE 0,
                                Composite [Literal ''-'', Value DayOfMonth 2 2 NOT_NEGATIVE 0] True]
                       True],
                   frameOptional = False, valueParserIndex = None\<rparr>]"
    by (simp add: appendPattern_def isLetter_def fieldOfLetter_def parseField_def liftBuilder_def
        builder_defs quote_def)
  then show "\<exists>b'. appendPattern ''uuuu[-MM[-dd]]'' DateTimeFormatterBuilder_new = Inr b'
          \<and> toString (toFormatter decimalStyle resolverStyle b')
              = ''Value(Year,4,15,EXCEEDS_PAD)['' @ [quote] @ ''-'' @ [quote]
                  @ ''Value(MonthOfYear,2)['' @ [quote] @ ''-'' @ [quote]
                  @ ''Value(DayOfMonth,2)]]''"
    by (simp add: toString_def startsWithBracket_def toFormatter_def node_pp_def
        closeFrame_def frameAppend_def js_substring_def fieldName_def signStyleName_def
        nat_to_string.simps digit_char_def doubleQuotes_def quote_def)
qed

theorem toString_strips_composite_brackets_witness:
  "pp_toString (f_printerParser (toFormatter (0::nat) SMART DateTimeFormatterBuilder_new))
      = ''('' @ [] @ '')''
   \<and> toString (toFormatter (0::nat) SMART DateTimeFormatterBuilder_new) = []
   \<and> pp_toString (f_printerParser (formatterOf (node_pp (Composite [Strict True] True))))
      = ''['' @ ''ParseStrict(true)]''
   \<and> toString (formatterOf (node_pp (Composite [Strict True] True))) = ''[ParseStrict(true)]''"
  using toString_strips_composite_brackets
      [of "toFormatter (0::nat) SMART DateTimeFormatterBuilder_new" "[]" 0 SMART, THEN conjunct1]
    toString_strips_composite_brackets
      [of "formatterOf (node_pp (Composite [Strict True] True))" "[]" 0 SMART,
       THEN conjunct2, THEN conjunct1]
  by (simp add: toFormatter_def node_pp_def DateTimeFormatterBuilder_new_def newFrame_def
      formatterOf_def boolName_def)

section \<open>Period: parsing the printed form\<close>

lemma digit_char_mem: "d < 10 \<Longrightarrow> digit_char d \<in> set ''0123456789''"
  unfolding digit_char_def by (rule nth_mem) simp

lemma nat_to_string_digits: "set (nat_to_string n) \<subseteq> set ''0123456789''"
proof (induction n rule: nat_to_string.induct)
  case (1 n)
  show ?case
  proof (cases "n < 10")
    case True
    then show ?thesis
      using digit_char_mem [of n] by (subst nat_to_string.simps) simp
  next
    case False
    with 1 have "set (nat_to_string (n div 10)) \<subseteq> set ''0123456789''" by simp
    moreover have "digit_char (n mod 10) \<in> set ''0123456789''"
      by (rule digit_char_mem) simp
    ultimately show ?thesis
      using False by (subst nat_to_string.simps) simp
  qed
qed

lemma nat_to_string_nonempty: "nat_to_string n \<noteq> []"
  by (subst nat_to_string.simps) simp

lemma many_class:
  assumes "set ds \<subseteq> set C"
    and "\<And>x s' cs'. x \<in> set C \<Longrightarrow> k (x # s') cs' = None"
    and "c \<notin> set C"
  shows "many C k (ds @ c # rest) cs = k (c # rest) cs"
  using assms(1)
proof (induction ds)
  case Nil
  with assms(3) show ?case by simp
next
  case (Cons x ds)
  then have "many C k (ds @ c # rest) cs = k (c # rest) cs" and "x \<in> set C"
    by simp_all
  with assms(2) [of x "ds @ c # rest" cs] show ?case
    by (cases "k (c # rest) cs") simp_all
qed

lemma plus_class:
  assumes "set ds \<subseteq> set C" and "ds \<noteq> []"
    and "\<And>x s' cs'. x \<in> set C \<Longrightarrow> k (x # s') cs' = None"
    and "c \<notin> set C"
  shows "rmatch (PlusOneOf C) k (ds @ c # rest) cs = k (c # rest) cs"
proof -
  from assms(2) obtain x xs where ds: "ds = x # xs" by (cases ds) auto
  with assms(1) have "x \<in> set C" and "set xs \<subseteq> set C" by simp_all
  with many_class [of xs C k c rest cs] assms(3,4) show ?thesis
    by (simp add: ds)
qed

lemma numberCore_match:
  assumes c: "c \<notin> set ''0123456789''" and L: "L \<notin> set ''0123456789''"
  shows "rmatch (numberCore n L) k (int_to_string v @ c # rest) cs
           = (if c = L then k rest (cs(n \<mapsto> int_to_string v)) else None)"
proof -
  define s where "s = int_to_string v @ c # rest"
  define K where "K = (\<lambda>s' cs'. rmatch (Chr L) k s' (cs'(n \<mapsto> take (length s - length s') s)))"
  define ds where "ds = nat_to_string (nat \<bar>v\<bar>)"
  have dig: "set ds \<subseteq> set ''0123456789''" and ne: "ds \<noteq> []"
    unfolding ds_def by (rule nat_to_string_digits, rule nat_to_string_nonempty)
  have Knone: "\<And>x s' cs'. x \<in> set ''0123456789'' \<Longrightarrow> K (x # s') cs' = None"
    using L by (auto simp: K_def)
  have Kend: "K (c # rest) cs = (if c = L then k rest (cs(n \<mapsto> int_to_string v)) else None)"
    by (simp add: K_def s_def)
  have plus: "rmatch (PlusOneOf ''0123456789'') K (ds @ c # rest) cs = K (c # rest) cs"
    using dig ne Knone c by (rule plus_class)
  have unfold: "rmatch (numberCore n L) k s cs
          = (case rmatch (OneOf ''-+'') (rmatch (PlusOneOf ''0123456789'') K) s cs of
               Some r \<Rightarrow> Some r
             | None \<Rightarrow> rmatch (PlusOneOf ''0123456789'') K s cs)"
    unfolding numberCore_def K_def by (simp only: rmatch.simps(3,4,6))
  show ?thesis
  proof (cases "v < 0")
    case True
    then have sv: "s = CHR ''-'' # ds @ c # rest"
      by (simp add: s_def int_to_string_def ds_def)
    have "rmatch (PlusOneOf ''0123456789'') K s cs = None"
      by (simp add: sv)
    then have "rmatch (numberCore n L) k s cs = K (c # rest) cs"
      using plus by (cases "K (c # rest) cs") (simp_all add: unfold, simp_all add: sv)
    then show ?thesis by (simp add: Kend s_def)
  next
    case False
    then have sv: "s = ds @ c # rest"
      by (simp add: s_def int_to_string_def ds_def)
    from ne obtain x xs where dsx: "ds = x # xs" by (cases ds) auto
    with dig have "x \<in> set ''0123456789''" by simp
    then have "x \<notin> set ''-+''" by auto
    then have "rmatch (OneOf ''-+'') (rmatch (PlusOneOf ''0123456789'') K) s cs = None"
      by (simp add: sv dsx)
    then have "rmatch (numberCore n L) k s cs = K (c # rest) cs"
      using plus by (simp add: unfold, simp add: sv)
    then show ?thesis by (simp add: Kend s_def)
  qed
qed

lemma numberCore_empty: "rmatch (numberCore n L) k [] cs = None"
  by (simp add: numberCore_def)


lemma numberSection_skip:
  assumes "noSection L s" and "L \<notin> set ''0123456789''"
  shows "rmatch (numberSection n L) k s cs = k s cs"
proof -
  have "rmatch (numberCore n L) k s cs = None"
    using assms numberCore_match [of _ L n k _ _ cs]
    by (auto simp: noSection_def numberCore_empty)
  then show ?thesis by (simp add: numberSection_def)
qed

lemma numberSection_take:
  assumes "neverFails k" and "L \<notin> set ''0123456789''" and "v \<noteq> 0 \<or> noSection L rest"
  shows "rmatch (numberSection n L) k (periodSection v L @ rest) cs
           = k rest (if v \<noteq> 0 then cs(n \<mapsto> int_to_string v) else cs)"
proof (cases "v = 0")
  case True
  with assms show ?thesis
    by (simp add: periodSection_def numberSection_skip)
next
  case False
  have "rmatch (numberCore n L) k (int_to_string v @ L # rest) cs
          = k rest (cs(n \<mapsto> int_to_string v))"
    using assms(2) by (simp add: numberCore_match)
  moreover from assms(1) have "k rest (cs(n \<mapsto> int_to_string v)) \<noteq> None"
    by (simp add: neverFails_def)
  ultimately show ?thesis
    using False by (auto simp: numberSection_def periodSection_def)
qed

lemma neverFails_numberSection: "neverFails k \<Longrightarrow> neverFails (rmatch (numberSection n L) k)"
  by (auto simp: neverFails_def numberSection_def split: option.splits)

lemma noSection_periodSection:
  assumes "c \<noteq> L" and "c \<notin> set ''0123456789''" and "noSection L rest"
  shows "noSection L (periodSection v c @ rest)"
  using assms by (auto simp: noSection_def periodSection_def)

lemma PATTERN_match:
  "\<exists>caps. rmatch PATTERN (\<lambda>s cs. Some cs)
            (CHR ''P'' # periodSection y CHR ''Y'' @ periodSection m CHR ''M''
               @ periodSection d CHR ''D'') (\<lambda>n. None) = Some caps
     \<and> caps 1 = Some []
     \<and> caps 2 = (if y \<noteq> 0 then Some (int_to_string y) else None)
     \<and> caps 3 = (if m \<noteq> 0 then Some (int_to_string m) else None)
     \<and> caps 4 = None
     \<and> caps 5 = (if d \<noteq> 0 then Some (int_to_string d) else None)"
proof -
  define k0 :: "string \<Rightarrow> captures \<Rightarrow> captures option" where "k0 = (\<lambda>s cs. Some cs)"
  define k4 where "k4 = rmatch (numberSection 5 CHR ''D'') k0"
  define k3 where "k3 = rmatch (numberSection 4 CHR ''W'') k4"
  define k2 where "k2 = rmatch (numberSection 3 CHR ''M'') k3"
  define T2 where "T2 = periodSection d CHR ''D''"
  define T1 where "T1 = periodSection m CHR ''M'' @ T2"
  define c1 :: captures where "c1 = (\<lambda>n. None)(1 \<mapsto> [])"
  define c2 where "c2 = (if y \<noteq> 0 then c1(2 \<mapsto> int_to_string y) else c1)"
  define c3 where "c3 = (if m \<noteq> 0 then c2(3 \<mapsto> int_to_string m) else c2)"
  define c4 where "c4 = (if d \<noteq> 0 then c3(5 \<mapsto> int_to_string d) else c3)"
  have n0: "neverFails k0" by (simp add: neverFails_def k0_def)
  then have n4: "neverFails k4" unfolding k4_def by (rule neverFails_numberSection)
  then have n3: "neverFails k3" unfolding k3_def by (rule neverFails_numberSection)
  then have n2: "neverFails k2" unfolding k2_def by (rule neverFails_numberSection)
  have e: "noSection L []" for L by (simp add: noSection_def)
  have t2M: "noSection CHR ''M'' T2" and t2W: "noSection CHR ''W'' T2"
    using noSection_periodSection [of "CHR ''D''" _ "[]" d] e by (simp_all add: T2_def)
  have "noSection CHR ''Y'' T2"
    using noSection_periodSection [of "CHR ''D''" _ "[]" d] e by (simp add: T2_def)
  then have t1Y: "noSection CHR ''Y'' T1"
    unfolding T1_def by (intro noSection_periodSection) simp_all
  have s5: "k4 T2 c3 = Some c4"
    using numberSection_take [of k0 "CHR ''D''" d "[]" 5 c3] n0 e
    by (simp add: k4_def T2_def k0_def c4_def)
  have s4: "k3 T2 c3 = k4 T2 c3"
    unfolding k3_def using t2W by (simp add: numberSection_skip)
  have s3: "k2 T1 c2 = k3 T2 c3"
    using numberSection_take [of k3 "CHR ''M''" m T2 3 c2] n3 t2M
    by (simp add: k2_def T1_def c3_def)
  have s2: "rmatch (numberSection 2 CHR ''Y'') k2 (periodSection y CHR ''Y'' @ T1) c1 = k2 T1 c2"
    using numberSection_take [of k2 "CHR ''Y''" y T1 2 c1] n2 t1Y
    by (simp add: c2_def)
  have "rmatch PATTERN k0 (CHR ''P'' # periodSection y CHR ''Y'' @ T1) (\<lambda>n. None)
          = rmatch (numberSection 2 CHR ''Y'') k2 (periodSection y CHR ''Y'' @ T1) c1"
    by (simp add: PATTERN_def k2_def k3_def k4_def c1_def)
  with s2 s3 s4 s5
  have "rmatch PATTERN k0 (CHR ''P'' # periodSection y CHR ''Y'' @ T1) (\<lambda>n. None) = Some c4"
    by simp
  moreover have "c4 1 = Some []" "c4 4 = None"
      "c4 2 = (if y \<noteq> 0 then Some (int_to_string y) else None)"
      "c4 3 = (if m \<noteq> 0 then Some (int_to_string m) else None)"
      "c4 5 = (if d \<noteq> 0 then Some (int_to_string d) else None)"
    by (simp_all add: c4_def c3_def c2_def c1_def)
  ultimately show ?thesis
    by (simp add: k0_def T1_def T2_def)
qed


lemma Period_create_in_range:
  assumes "\<forall>v. \<bar>v\<bar> < 2 ^ 31 \<longrightarrow> safeToInt mu v = Inr v"
    and "\<bar>y\<bar> < 2 ^ 31" and "\<bar>m\<bar> < 2 ^ 31" and "\<bar>d\<bar> < 2 ^ 31"
  shows "Period_create mu y m d = Inr (if y = 0 \<and> m = 0 \<and> d = 0 then ZERO else Instance y m d)"
  using assms
  by (simp add: Period_create_def Period_constructor_def Period_validate_def js_bitor3_eq_0)

lemma Period_parse_P0D:
  assumes "\<forall>v. \<bar>v\<bar> < 2 ^ 31 \<longrightarrow> safeToInt mu v = Inr v"
    and "\<forall>v. \<bar>v\<bar> < 2 ^ 31 \<longrightarrow> parseInt mu (int_to_string v) = Inr v"
    and "\<forall>a b. \<bar>a\<bar> < 2 ^ 31 \<and> \<bar>b\<bar> < 2 ^ 31 \<and> \<bar>a * b\<bar> < 2 ^ 31 \<longrightarrow> safeMultiply mu a b = Inr (a * b)"
    and "\<forall>a b. \<bar>a\<bar> < 2 ^ 31 \<and> \<bar>b\<bar> < 2 ^ 31 \<and> \<bar>a + b\<bar> < 2 ^ 31 \<longrightarrow> safeAdd mu a b = Inr (a + b)"
  shows "Period_parse mu (Some ''P0D'') = Inr ZERO"
proof -
  have x: "regex_exec PATTERN ''P0D'' = Some ((\<lambda>n. None)(1 \<mapsto> [], 5 \<mapsto> ''0''))"
    by (simp add: PATTERN_def numberSection_def numberCore_def)
  have p: "parseInt mu ''0'' = Inr 0"
    using assms(2) [rule_format, of 0] by (simp add: int_to_string_def nat_to_string.simps digit_char_def)
  have m1: "safeMultiply mu 0 1 = Inr 0" and m7: "safeMultiply mu 0 7 = Inr 0"
    using assms(3) [rule_format, of 0 1] assms(3) [rule_format, of 0 7] by simp_all
  have a: "safeAdd mu 0 0 = Inr 0"
    using assms(4) [rule_format, of 0 0] by simp
  have c: "Period_create mu 0 0 0 = Inr ZERO"
    using Period_create_in_range [OF assms(1), of 0 0 0] by simp
  have "Period_parse_inner mu ''P0D'' = Inr ZERO"
    unfolding Period_parse_inner_def x
    by (simp add: Period_parseNumber_def p m1 m7 a c)
  then show ?thesis
    by (simp add: Period_parse_def)
qed

lemma Period_parseNumber_section:
  assumes "\<forall>v. \<bar>v\<bar> < 2 ^ 31 \<longrightarrow> parseInt mu (int_to_string v) = Inr v"
    and "\<forall>a b. \<bar>a\<bar> < 2 ^ 31 \<and> \<bar>b\<bar> < 2 ^ 31 \<and> \<bar>a * b\<bar> < 2 ^ 31 \<longrightarrow> safeMultiply mu a b = Inr (a * b)"
    and "\<bar>v\<bar> < 2 ^ 31"
  shows "Period_parseNumber mu t (if v \<noteq> 0 then Some (int_to_string v) else None) 1 = Inr v"
  using assms(1) [rule_format, of v] assms(2) [rule_format, of v 1] assms(3)
  by (simp add: Period_parseNumber_def)

lemma Period_parse_Instance:
  assumes "\<forall>v. \<bar>v\<bar> < 2 ^ 31 \<longrightarrow> safeToInt mu v = Inr v"
    and "\<forall>v. \<bar>v\<bar> < 2 ^ 31 \<longrightarrow> parseInt mu (int_to_string v) = Inr v"
    and "\<forall>a b. \<bar>a\<bar> < 2 ^ 31 \<and> \<bar>b\<bar> < 2 ^ 31 \<and> \<bar>a * b\<bar> < 2 ^ 31 \<longrightarrow> safeMultiply mu a b = Inr (a * b)"
    and "\<forall>a b. \<bar>a\<bar> < 2 ^ 31 \<and> \<bar>b\<bar> < 2 ^ 31 \<and> \<bar>a + b\<bar> < 2 ^ 31 \<longrightarrow> safeAdd mu a b = Inr (a + b)"
    and "\<bar>y\<bar> < 2 ^ 31" and "\<bar>m\<bar> < 2 ^ 31" and "\<bar>d\<bar> < 2 ^ 31"
    and nz: "\<not> (y = 0 \<and> m = 0 \<and> d = 0)"
  shows "Period_parse mu (Some (Period_toString (Instance y m d))) = Inr (Instance y m d)"
proof -
  define t where "t = CHR ''P'' # periodSection y CHR ''Y'' @ periodSection m CHR ''M''
               @ periodSection d CHR ''D''"
  have ts: "Period_toString (Instance y m d) = t"
    by (simp add: Period_toString_def t_def)
  from PATTERN_match [of y m d] obtain caps where
    r: "rmatch PATTERN (\<lambda>s cs. Some cs) t (\<lambda>n. None) = Some caps"
    and c1: "caps 1 = Some []"
    and c2: "caps 2 = (if y \<noteq> 0 then Some (int_to_string y) else None)"
    and c3: "caps 3 = (if m \<noteq> 0 then Some (int_to_string m) else None)"
    and c4: "caps 4 = None"
    and c5: "caps 5 = (if d \<noteq> 0 then Some (int_to_string d) else None)"
    unfolding t_def by blast
  from r have x: "regex_exec PATTERN t = Some caps"
    by (simp add: t_def)
  have some: "caps 2 \<noteq> None \<or> caps 3 \<noteq> None \<or> caps 4 \<noteq> None \<or> caps 5 \<noteq> None"
    using nz by (auto simp: c2 c3 c5)
  have py: "Period_parseNumber mu t (caps 2) 1 = Inr y"
    unfolding c2 using assms(2,3,5) by (rule Period_parseNumber_section)
  have pm: "Period_parseNumber mu t (caps 3) 1 = Inr m"
    unfolding c3 using assms(2,3,6) by (rule Period_parseNumber_section)
  have pd: "Period_parseNumber mu t (caps 5) 1 = Inr d"
    unfolding c5 using assms(2,3,7) by (rule Period_parseNumber_section)
  have pw: "Period_parseNumber mu t (caps 4) 1 = Inr 0"
    by (simp add: c4 Period_parseNumber_def)
  have m7: "safeMultiply mu 0 7 = Inr 0"
    using assms(3) [rule_format, of 0 7] by simp
  have a: "safeAdd mu d 0 = Inr d"
    using assms(4) [rule_format, of d 0] assms(7) by simp
  have c: "Period_create mu y m d = Inr (Instance y m d)"
    using Period_create_in_range [OF assms(1,5,6,7)] nz by simp
  from c1 have c1': "caps (Suc 0) = Some []" by simp
  have "Period_parse_inner mu t = Inr (Instance y m d)"
    using some by (simp add: Period_parse_inner_def x c1' py pm pd pw m7 a c Let_def)
  then show ?thesis
    by (simp add: Period_parse_def ts)
qed

lemma digitValue_digit_char: "d < 10 \<Longrightarrow> digitValue (digit_char d) = d"
proof -
  assume "d < 10"
  then have "d = 0 \<or> d = 1 \<or> d = 2 \<or> d = 3 \<or> d = 4 \<or> d = 5 \<or> d = 6 \<or> d = 7 \<or> d = 8 \<or> d = 9"
    by arith
  then show ?thesis
    by (elim disjE) (simp_all add: digitValue_def digit_char_def)
qed

lemma numberValue_nat_to_string: "numberValue (nat_to_string n) = n"
proof (induction n rule: nat_to_string.induct)
  case (1 n)
  show ?case
  proof (cases "n < 10")
    case True
    then show ?thesis
      by (subst nat_to_string.simps) (simp add: numberValue_def digitValue_digit_char)
  next
    case False
    with 1 have "numberValue (nat_to_string (n div 10)) = n div 10" by simp
    then show ?thesis
      using False
      by (subst nat_to_string.simps) (simp add: numberValue_snoc digitValue_digit_char)
  qed
qed

lemma nat_to_string_all_digits: "list_all isDigit (nat_to_string n)"
  unfolding list_all_iff isDigit_def using nat_to_string_digits [of n] by blast

lemma digit_not_sign: "c \<in> set ''0123456789'' \<Longrightarrow> c \<noteq> CHR ''-'' \<and> c \<noteq> CHR ''+''"
  by auto

lemma digitsInt_nat_to_string:
  "digitsInt negative (nat_to_string n) = Inr (if negative then - int n else int n)"
  by (simp add: digitsInt_def nat_to_string_all_digits nat_to_string_nonempty
      numberValue_nat_to_string)

lemma decimalInt_int_to_string: "decimalInt (int_to_string v) = Inr v"
proof (cases "v < 0")
  case True
  have "decimalInt (CHR ''-'' # nat_to_string (nat (- v))) = digitsInt True (nat_to_string (nat (- v)))"
    by (simp add: decimalInt_def)
  with True show ?thesis
    by (simp add: int_to_string_def digitsInt_nat_to_string)
next
  case False
  obtain c cs where n: "nat_to_string (nat v) = c # cs"
    using nat_to_string_nonempty [of "nat v"] by (cases "nat_to_string (nat v)") auto
  with nat_to_string_digits [of "nat v"] have "c \<noteq> CHR ''-'' \<and> c \<noteq> CHR ''+''"
    by (intro digit_not_sign) simp
  then have "decimalInt (c # cs) = digitsInt False (c # cs)"
    by (simp add: decimalInt_def)
  then have "decimalInt (nat_to_string (nat v)) = digitsInt False (nat_to_string (nat v))"
    by (simp only: n)
  with False show ?thesis
    by (simp add: int_to_string_def digitsInt_nat_to_string)
qed

lemma exactMathUtil_parseInt: "parseInt exactMathUtil (int_to_string v) = Inr v"
  by (simp add: exactMathUtil_def decimalInt_int_to_string)

lemma decimalInt_plus: "decimalInt ''+1'' = Inr 1"
  by (simp add: decimalInt_def digitsInt_def isDigit_def numberValue_def digitValue_def)

text \<open>
  C9. Let the functions of \<open>MathUtil\<close> accept the integers of absolute value below \<open>2^31\<close>:
  \<open>safeToInt\<close> returns such an integer, \<open>parseInt\<close> returns it for its decimal text, and
  \<open>safeMultiply\<close> and \<open>safeAdd\<close> return the product and the sum when these are in the range
  too. Then for every period \<open>p\<close> that \<open>Period.of(y, m, d)\<close>, \<open>ofYears(y)\<close>, \<open>ofMonths(m)\<close>,
  \<open>ofWeeks(w)\<close> or \<open>ofDays(d)\<close> returns, with \<open>y\<close>, \<open>m\<close>, \<open>d\<close> and \<open>7 w\<close> in the range,
  \<open>Period.parse(p.toString())\<close> returns a period \<open>q\<close> with \<open>q.equals(p)\<close>; the zero period prints
  as \<open>P0D\<close> and parses back to the singleton \<open>Period.ZERO\<close>.
\<close>

theorem Period_parse_toString_roundtrip:
  assumes "\<forall>v. \<bar>v\<bar> < 2 ^ 31 \<longrightarrow> safeToInt mu v = Inr v"
    and "\<forall>v. \<bar>v\<bar> < 2 ^ 31 \<longrightarrow> parseInt mu (int_to_string v) = Inr v"
    and "\<forall>a b. \<bar>a\<bar> < 2 ^ 31 \<and> \<bar>b\<bar> < 2 ^ 31 \<and> \<bar>a * b\<bar> < 2 ^ 31 \<longrightarrow> safeMultiply mu a b = Inr (a * b)"
    and "\<forall>a b. \<bar>a\<bar> < 2 ^ 31 \<and> \<bar>b\<bar> < 2 ^ 31 \<and> \<bar>a + b\<bar> < 2 ^ 31 \<longrightarrow> safeAdd mu a b = Inr (a + b)"
    and "\<bar>y\<bar> < 2 ^ 31" and "\<bar>m\<bar> < 2 ^ 31" and "\<bar>d\<bar> < 2 ^ 31" and "\<bar>w * 7\<bar> < 2 ^ 31"
  shows "\<forall>p. (Period_of mu y m d = Inr p \<or> Period_ofYears mu y = Inr p
               \<or> Period_ofMonths mu m = Inr p \<or> Period_ofWeeks mu w = Inr p
               \<or> Period_ofDays mu d = Inr p) \<longrightarrow>
           (\<exists>q. Period_parse mu (Some (Period_toString p)) = Inr q \<and> Period_equals q (Obj p))
           \<and> (isZero p \<longrightarrow> Period_toString p = ''P0D''
                  \<and> Period_parse mu (Some (Period_toString p)) = Inr ZERO)"
proof (intro allI impI)
  fix p
  assume f: "Period_of mu y m d = Inr p \<or> Period_ofYears mu y = Inr p
               \<or> Period_ofMonths mu m = Inr p \<or> Period_ofWeeks mu w = Inr p
               \<or> Period_ofDays mu d = Inr p"
  have w7: "safeMultiply mu w 7 = Inr (w * 7)"
    using assms(3) [rule_format, of w 7] assms(8) by simp
  have created: "\<exists>a b c. \<bar>a\<bar> < 2 ^ 31 \<and> \<bar>b\<bar> < 2 ^ 31 \<and> \<bar>c\<bar> < 2 ^ 31
                   \<and> Period_create mu a b c = Inr p"
    using f
  proof (elim disjE)
    assume "Period_of mu y m d = Inr p"
    with assms(5-7) have "\<bar>y\<bar> < 2 ^ 31 \<and> \<bar>m\<bar> < 2 ^ 31 \<and> \<bar>d\<bar> < 2 ^ 31
        \<and> Period_create mu y m d = Inr p"
      by (simp add: Period_of_def)
    then show ?thesis by blast
  next
    assume "Period_ofYears mu y = Inr p"
    with assms(5) have "\<bar>y\<bar> < 2 ^ 31 \<and> \<bar>0::int\<bar> < 2 ^ 31 \<and> \<bar>0::int\<bar> < 2 ^ 31
        \<and> Period_create mu y 0 0 = Inr p"
      by (simp add: Period_ofYears_def)
    then show ?thesis by blast
  next
    assume "Period_ofMonths mu m = Inr p"
    with assms(6) have "\<bar>0::int\<bar> < 2 ^ 31 \<and> \<bar>m\<bar> < 2 ^ 31 \<and> \<bar>0::int\<bar> < 2 ^ 31
        \<and> Period_create mu 0 m 0 = Inr p"
      by (simp add: Period_ofMonths_def)
    then show ?thesis by blast
  next
    assume "Period_ofWeeks mu w = Inr p"
    with assms(8) w7 have "\<bar>0::int\<bar> < 2 ^ 31 \<and> \<bar>0::int\<bar> < 2 ^ 31 \<and> \<bar>w * 7\<bar> < 2 ^ 31
        \<and> Period_create mu 0 0 (w * 7) = Inr p"
      by (simp add: Period_ofWeeks_def)
    then show ?thesis by blast
  next
    assume "Period_ofDays mu d = Inr p"
    with assms(7) have "\<bar>0::int\<bar> < 2 ^ 31 \<and> \<bar>0::int\<bar> < 2 ^ 31 \<and> \<bar>d\<bar> < 2 ^ 31
        \<and> Period_create mu 0 0 d = Inr p"
      by (simp add: Period_ofDays_def)
    then show ?thesis by blast
  qed
  then obtain a b c where r: "\<bar>a\<bar> < 2 ^ 31" "\<bar>b\<bar> < 2 ^ 31" "\<bar>c\<bar> < 2 ^ 31"
    and cr: "Period_create mu a b c = Inr p"
    by blast
  from cr Period_create_in_range [OF assms(1) r]
  have pv: "p = (if a = 0 \<and> b = 0 \<and> c = 0 then ZERO else Instance a b c)"
    by simp
  have rt: "Period_parse mu (Some (Period_toString p)) = Inr p"
  proof (cases "a = 0 \<and> b = 0 \<and> c = 0")
    case True
    with pv have "p = ZERO" by simp
    then show ?thesis
      using Period_parse_P0D [OF assms(1-4)] by (simp add: Period_toString_def)
  next
    case False
    with pv have "p = Instance a b c" by simp
    then show ?thesis
      using Period_parse_Instance [OF assms(1-4) r False] by simp
  qed
  show "(\<exists>q. Period_parse mu (Some (Period_toString p)) = Inr q \<and> Period_equals q (Obj p))
           \<and> (isZero p \<longrightarrow> Period_toString p = ''P0D''
                  \<and> Period_parse mu (Some (Period_toString p)) = Inr ZERO)"
    using rt by (auto simp: Period_equals_def isZero_def Period_toString_def)
qed


theorem Period_parse_toString_roundtrip_witness:
  "Period_of exactMathUtil 1 (- 2) 30 = Inr (Instance 1 (- 2) 30)
   \<and> Period_toString (Instance 1 (- 2) 30) = ''P1Y-2M30D''
   \<and> (\<exists>q. Period_parse exactMathUtil (Some ''P1Y-2M30D'') = Inr q
          \<and> Period_equals q (Obj (Instance 1 (- 2) 30)))"
proof -
  have o: "Period_of exactMathUtil 1 (- 2) 30 = Inr (Instance 1 (- 2) 30)"
    using js_bitor3_eq_0 [of 1 "- 2" 30]
    by (simp add: Period_of_def Period_create_def Period_constructor_def Period_validate_def
        exactMathUtil_def)
  have t: "Period_toString (Instance 1 (- 2) 30) = ''P1Y-2M30D''"
    by (simp add: Period_toString_def periodSection_def int_to_string_def nat_to_string.simps
        digit_char_def)
  have c1: "\<forall>v. \<bar>v\<bar> < 2 ^ 31 \<longrightarrow> safeToInt exactMathUtil v = Inr v"
    by (simp add: exactMathUtil_def)
  have c2: "\<forall>v. \<bar>v\<bar> < 2 ^ 31 \<longrightarrow> parseInt exactMathUtil (int_to_string v) = Inr v"
    by (simp add: exactMathUtil_parseInt)
  have c3: "\<forall>a b. \<bar>a\<bar> < 2 ^ 31 \<and> \<bar>b\<bar> < 2 ^ 31 \<and> \<bar>a * b\<bar> < 2 ^ 31
              \<longrightarrow> safeMultiply exactMathUtil a b = Inr (a * b)"
    by (simp add: exactMathUtil_def)
  have c4: "\<forall>a b. \<bar>a\<bar> < 2 ^ 31 \<and> \<bar>b\<bar> < 2 ^ 31 \<and> \<bar>a + b\<bar> < 2 ^ 31
              \<longrightarrow> safeAdd exactMathUtil a b = Inr (a + b)"
    by (simp add: exactMathUtil_def)
  have r: "\<bar>1::int\<bar> < 2 ^ 31" "\<bar>- 2::int\<bar> < 2 ^ 31" "\<bar>30::int\<bar> < 2 ^ 31" "\<bar>3 * 7::int\<bar> < 2 ^ 31"
    by simp_all
  from Period_parse_toString_roundtrip [OF c1 c2 c3 c4 r] o
  have "\<exists>q. Period_parse exactMathUtil (Some (Period_toString (Instance 1 (- 2) 30))) = Inr q
                 \<and> Period_equals q (Obj (Instance 1 (- 2) 30))"
    by blast
  with o t show ?thesis by simp
qed


end
